theory Spec2Isabelle
  imports Complex_Main
begin

section \<open>Python values used by the model\<close>

text \<open>
  The development embeds \<^verbatim>\<open>snorkel/contrib/wclstm/wclstm.py\<close> (class WCLSTM, Python 2:
  \<^verbatim>\<open>map\<close> is eager and returns a list). Strings are byte strings, integers are
  unbounded, exceptions are values of \<open>py_error\<close> and every function that can raise returns
  a sum with the exception on the left.
\<close>

datatype py_error =
    AttributeError
  | IndexError
  | KeyError
  | TypeError
  | IOError
  | ZeroDivisionError
  | AxisError
  | UnpicklingError
  | ValueError string
  | AssertionError string

text \<open>\<^verbatim>\<open>xs[i:j]\<close> for a list or a string: negative bounds count from the end, both are clamped.\<close>

definition py_slice :: "'a list \<Rightarrow> int \<Rightarrow> int \<Rightarrow> 'a list" where
  "py_slice xs i j =
     (let n = int (length xs);
          lo = (if i < 0 then max (i + n) 0 else min i n);
          hi = (if j < 0 then max (j + n) 0 else min j n)
      in take (nat (hi - lo)) (drop (nat lo) xs))"

text \<open>\<^verbatim>\<open>sep.join(words)\<close>.\<close>

fun py_join :: "string \<Rightarrow> string list \<Rightarrow> string" where
  "py_join sep [] = []"
| "py_join sep [w] = w"
| "py_join sep (w # v # ws) = w @ sep @ py_join sep (v # ws)"

text \<open>\<^verbatim>\<open>list(str)\<close>: the one-character strings of a string.\<close>

definition py_list :: "string \<Rightarrow> string list" where
  "py_list str = map (\<lambda>c. [c]) str"

section \<open>The symbol table\<close>

text \<open>
  Modelled from the spec: the class \<^verbatim>\<open>SymbolTable\<close> comes from the module \<^verbatim>\<open>utils\<close> of the
  package, which is not among the sources. The spec gives a mapping from tokens to dense
  integer ids in which the ids 0 and 1 are reserved (padding and unknown), \<^verbatim>\<open>get\<close> inserting
  an absent token under the next free id and returning the id, \<^verbatim>\<open>lookup\<close> returning the id or
  the unknown id without changing the table, and \<^verbatim>\<open>lookup_strict\<close> failing on an absent
  token. The field \<open>s\<close> is the attribute the class reads as \<^verbatim>\<open>self.word_dict.s\<close>: the next free
  id, which is also the number of rows of an embedding matrix indexed by id.
\<close>

record SymbolTable =
  s :: nat
  unknown :: nat
  d :: "string \<rightharpoonup> nat"

definition SymbolTable_new :: SymbolTable where
  "SymbolTable_new = \<lparr>s = 2, unknown = 1, d = Map.empty\<rparr>"

definition get :: "SymbolTable \<Rightarrow> string \<Rightarrow> SymbolTable \<times> nat" where
  "get t w =
     (case d t w of
        Some i \<Rightarrow> (t, i)
      | None \<Rightarrow> (t\<lparr>d := (d t)(w \<mapsto> s t), s := Suc (s t)\<rparr>, s t))"

definition lookup :: "SymbolTable \<Rightarrow> string \<Rightarrow> nat" where
  "lookup t w = (case d t w of Some i \<Rightarrow> i | None \<Rightarrow> unknown t)"

definition lookup_strict :: "SymbolTable \<Rightarrow> string \<Rightarrow> py_error + nat" where
  "lookup_strict t w = (case d t w of Some i \<Rightarrow> Inr i | None \<Rightarrow> Inl KeyError)"

text \<open>\<^verbatim>\<open>map(table.get, ws)\<close>: the table after the calls, and the list of ids.\<close>

fun map_get :: "SymbolTable \<Rightarrow> string list \<Rightarrow> SymbolTable \<times> nat list" where
  "map_get t [] = (t, [])"
| "map_get t (w # ws) =
     (let (t1, i) = get t w; (t2, js) = map_get t1 ws in (t2, i # js))"

section \<open>Candidates, splits and the model instance\<close>

text \<open>
  A candidate is a tuple of argument mentions, each with a word start and a word end, over
  a parent sentence.

  Modelled from the spec: \<^verbatim>\<open>candidate_to_tokens\<close> is defined in the absent module \<^verbatim>\<open>utils\<close>;
  the spec has it return the full token sequence of the parent sentence, which is the
  field \<open>tokens\<close> here.
\<close>

record candidate =
  mentions :: "(int \<times> int) list"
  tokens :: "string list"

definition candidate_to_tokens :: "candidate \<Rightarrow> string list" where
  "candidate_to_tokens c = tokens c"

text \<open>The dictionary \<^verbatim>\<open>splits\<close> with its two keys \<^verbatim>\<open>"train"\<close> and \<^verbatim>\<open>"test"\<close>.\<close>

record splits =
  train_split :: "candidate list"
  test_split :: "candidate list list"

text \<open>
  The keyword arguments of \<^verbatim>\<open>train\<close>, which \<^verbatim>\<open>_init_kwargs\<close> parses: a key that is absent
  from the dictionary is \<open>None\<close>. The dictionary \<^verbatim>\<open>replace\<close> is the list of its items in
  iteration order.
\<close>

record kwargs =
  kw_init_pretrained :: "splits option"
  kw_load_emb :: "bool option"
  kw_word_emb_dim :: "int option"
  kw_char_emb_dim :: "int option"
  kw_word_emb_path :: "string option"
  kw_char_emb_path :: "string option"
  kw_lr :: "real option"
  kw_attention :: "bool option"
  kw_n_epochs :: "int option"
  kw_dropout :: "real option"
  kw_batch_size :: "int option"
  kw_rebalance :: "bool option"
  kw_char_gram :: "int option"
  kw_lstm_hidden_dim :: "int option"
  kw_bidirectional :: "bool option"
  kw_max_sentence_length :: "int option"
  kw_max_word_length :: "int option"
  kw_host_device :: "string option"
  kw_replace :: "(string \<times> string) list option"
  kw_patience :: "int option"

text \<open>The configuration attributes that \<^verbatim>\<open>_init_kwargs\<close> assigns.\<close>

record config =
  load_emb :: bool
  word_emb_dim :: int
  char_emb_dim :: int
  word_emb_path :: "string option"
  char_emb_path :: "string option"
  lr :: real
  attention :: bool
  n_epochs :: int
  dropout :: real
  batch_size :: int
  rebalance :: bool
  char_gram :: int
  lstm_hidden_dim :: int
  bidirectional :: bool
  max_sentence_length :: int
  max_word_length :: int
  host_device :: string
  replace :: "(string \<times> string) list"
  patience :: int

text \<open>
  The attributes of an instance. An attribute that the code tests with \<^verbatim>\<open>hasattr\<close>, or
  that only a training or loading call assigns, is \<open>None\<close> until it is assigned, and
  reading it then raises \<open>AttributeError\<close>. The configuration attributes and
  \<^verbatim>\<open>model_kwargs\<close> are those of an instance that \<^verbatim>\<open>_init_kwargs\<close> has configured. The two
  \<^verbatim>\<open>*_dict_all\<close> dictionaries map every key to \<^verbatim>\<open>None\<close> and are only asked for membership and
  size: they are sets of keys. The two encoder networks are values of a type \<open>'net\<close> on
  which nothing is assumed; an embedding matrix is the list of its rows. The field
  \<open>warned\<close> is not an attribute: it collects, in order, the messages that the methods of
  the instance have handed to \<^verbatim>\<open>warnings.warn\<close>.
\<close>

record 'net wclstm =
  name :: string
  cardinality :: int
  cfg :: config
  model_kwargs :: kwargs
  word_dict :: "SymbolTable option"
  char_dict :: "SymbolTable option"
  word_dict_all :: "string set option"
  char_dict_all :: "string set option"
  word_emb :: "real list list option"
  char_emb :: "real list list option"
  word_model :: "'net option"
  char_model :: "'net option"
  warned :: "string list"

definition char_marker :: "string list" where
  "char_marker = [''<'', ''>'']"

definition word_padding :: "string list" where
  "word_padding = [''~~[[1'', ''1]]~~'', ''~~[[2'', ''2]]~~'']"

text \<open>\<^verbatim>\<open>"{0}".format(n)\<close> for an integer: its decimal digits, with a sign when negative.\<close>

fun str_nat :: "nat \<Rightarrow> string" where
  "str_nat n =
     (if n < 10 then [''0123456789'' ! n]
      else str_nat (n div 10) @ [''0123456789'' ! (n mod 10)])"

declare str_nat.simps [simp del]

definition str_int :: "int \<Rightarrow> string" where
  "str_int i = (if i < 0 then ''-'' @ str_nat (nat (- i)) else str_nat (nat i))"

text \<open>\<^verbatim>\<open>xs.insert(i, x)\<close>: a negative index counts from the end, and the index is clamped.\<close>

definition py_insert :: "'a list \<Rightarrow> int \<Rightarrow> 'a \<Rightarrow> 'a list" where
  "py_insert xs i x =
     (let n = int (length xs);
          k = (if i < 0 then max (i + n) 0 else min i n)
      in take (nat k) xs @ x # drop (nat k) xs)"

text \<open>
  Modelled from the spec: \<^verbatim>\<open>mark_sentence\<close> is defined in the absent module \<^verbatim>\<open>utils\<close>. The spec
  has the tokens of the sentence with bracket markers inserted at the start and the end
  boundary of each argument, distinct per argument index; the markers are the padding
  strings that the class seeds the word table with. An argument is a triple of word
  start, word end and index; the opening marker goes before the start token and the
  closing marker after the end token, later arguments first. The functions of the class
  take the marking function as a parameter; this one serves where a concrete one is
  needed.
\<close>

fun mark_sentence :: "string list \<Rightarrow> (int \<times> int \<times> int) list \<Rightarrow> string list" where
  "mark_sentence sent [] = sent"
| "mark_sentence sent ((l, h, idx) # rest) =
     py_insert (py_insert (mark_sentence sent rest) (h + 1) (str_int idx @ '']]~~''))
       l (''~~[['' @ str_int idx)"

section \<open>Sequence preprocessing\<close>

text \<open>
  The argument triples handed to \<^verbatim>\<open>mark_sentence\<close>: two for a candidate of length 2, else
  one for the first mention (reading \<^verbatim>\<open>candidate[0]\<close> of an empty candidate raises).
\<close>

definition mark_args :: "candidate \<Rightarrow> py_error + (int \<times> int \<times> int) list" where
  "mark_args c =
     (case mentions c of
        [] \<Rightarrow> Inl IndexError
      | [a, b] \<Rightarrow> Inr [(fst a, snd a, 1), (fst b, snd b, 2)]
      | a # _ \<Rightarrow> Inr [(fst a, snd a, 1)])"

text \<open>
  The inner loop over \<^verbatim>\<open>range(len(word) - self.char_gram + 1)\<close>: the n-grams of the wrapped
  token.
\<close>

definition word_char_seq :: "int \<Rightarrow> string \<Rightarrow> string list" where
  "word_char_seq cg w =
     (let word = char_marker ! 0 @ w @ char_marker ! 1
      in map (\<lambda>i. py_slice word (int i) (int i + cg))
           [0 ..< nat (int (length word) - cg + 1)])"

text \<open>\<^verbatim>\<open>map(f, xs)\<close> with \<^verbatim>\<open>f = table.get if extend else table.lookup\<close>.\<close>

definition map_table :: "bool \<Rightarrow> SymbolTable \<Rightarrow> string list \<Rightarrow> SymbolTable \<times> nat list" where
  "map_table ext t ws = (if ext then map_get t ws else (t, map (lookup t) ws))"

text \<open>The loop \<^verbatim>\<open>for w in s\<close> that builds \<^verbatim>\<open>char_seq\<close> for one marked sentence.\<close>

fun char_seq :: "bool \<Rightarrow> int \<Rightarrow> SymbolTable \<Rightarrow> string list \<Rightarrow> SymbolTable \<times> nat list list" where
  "char_seq ext cg t [] = (t, [])"
| "char_seq ext cg t (w # ws) =
     (let (t1, ids) = map_table ext t (word_char_seq cg w);
          (t2, rest) = char_seq ext cg t1 ws
      in (t2, ids # rest))"

text \<open>
  The loop over the candidates. The function \<^verbatim>\<open>mark_sentence\<close> of the absent module \<^verbatim>\<open>utils\<close>
  is the parameter \<open>mark\<close>.
\<close>

fun preprocess_loop ::
  "(string list \<Rightarrow> (int \<times> int \<times> int) list \<Rightarrow> string list) \<Rightarrow> bool \<Rightarrow> int \<Rightarrow>
   SymbolTable \<Rightarrow> SymbolTable \<Rightarrow> candidate list \<Rightarrow>
   py_error + (SymbolTable \<times> SymbolTable \<times> nat list list \<times> nat list list list)" where
  "preprocess_loop mark ext cg wd cd [] = Inr (wd, cd, [], [])"
| "preprocess_loop mark ext cg wd cd (c # cs) =
     (case mark_args c of
        Inl e \<Rightarrow> Inl e
      | Inr args \<Rightarrow>
          (let sent = mark (candidate_to_tokens c) args;
               (wd1, word_ids) = map_table ext wd sent;
               (cd1, char_ids) = char_seq ext cg cd sent
           in case preprocess_loop mark ext cg wd1 cd1 cs of
                Inl e \<Rightarrow> Inl e
              | Inr (wd2, cd2, word_seq_data, char_seq_data) \<Rightarrow>
                  Inr (wd2, cd2, word_ids # word_seq_data, char_ids # char_seq_data)))"

text \<open>
  \<^verbatim>\<open>_preprocess_data(self, candidates, extend)\<close>: a missing table is created and seeded with
  its padding markers, then the candidates are converted.
\<close>

definition preprocess_data ::
  "(string list \<Rightarrow> (int \<times> int \<times> int) list \<Rightarrow> string list) \<Rightarrow> 'net wclstm \<Rightarrow>
   candidate list \<Rightarrow> bool \<Rightarrow> py_error + ('net wclstm \<times> nat list list \<times> nat list list list)" where
  "preprocess_data mark self candidates ext =
     (let wd = (case word_dict self of
                  None \<Rightarrow> fst (map_get SymbolTable_new word_padding)
                | Some t \<Rightarrow> t);
          cd = (case char_dict self of
                  None \<Rightarrow> fst (map_get SymbolTable_new char_marker)
                | Some t \<Rightarrow> t)
      in case preprocess_loop mark ext (char_gram (cfg self)) wd cd candidates of
           Inl e \<Rightarrow> Inl e
         | Inr (wd', cd', word_seq_data, char_seq_data) \<Rightarrow>
             Inr (self\<lparr>word_dict := Some wd', char_dict := Some cd'\<rparr>,
                  word_seq_data, char_seq_data))"

section \<open>Length validation\<close>

text \<open>The text handed to \<^verbatim>\<open>warnings.warn\<close> for candidate \<open>i\<close>.\<close>

definition warning_text :: "nat \<Rightarrow> int \<Rightarrow> int \<Rightarrow> string" where
  "warning_text i e mx =
     py_join [CHR 0x09]
       [''Candidate '' @ str_nat i @ '' has argument past max length for model:'',
        ''[arg ends at index '' @ str_int e @ ''; max len '' @ str_int mx @ '']'']"

text \<open>The loop over \<^verbatim>\<open>enumerate(ends)\<close>; the result lists the warnings in the order raised.\<close>

fun check_loop :: "int \<Rightarrow> nat \<Rightarrow> int list \<Rightarrow> string list" where
  "check_loop mx i [] = []"
| "check_loop mx i (e # ends) =
     (if e \<ge> mx then warning_text i e mx # check_loop mx (Suc i) ends
      else check_loop mx (Suc i) ends)"

text \<open>
  \<^verbatim>\<open>_check_max_sentence_length(self, ends, max_len=None)\<close>. In \<^verbatim>\<open>max_len or
  self.max_sentence_length\<close> an absent or zero \<^verbatim>\<open>max_len\<close> gives the configured length.
\<close>

definition max_len_or :: "'net wclstm \<Rightarrow> int option \<Rightarrow> int" where
  "max_len_or self max_len =
     (case max_len of
        None \<Rightarrow> max_sentence_length (cfg self)
      | Some m \<Rightarrow> if m = 0 then max_sentence_length (cfg self) else m)"

definition check_max_sentence_length :: "'net wclstm \<Rightarrow> int list \<Rightarrow> int option \<Rightarrow> 'net wclstm" where
  "check_max_sentence_length self ends max_len =
     self\<lparr>warned := warned self @ check_loop (max_len_or self max_len) 0 ends\<rparr>"

section \<open>Building the vocabulary from the splits\<close>

text \<open>\<^verbatim>\<open>dict.get(key)\<close> on a dictionary whose values are all \<^verbatim>\<open>None\<close>: a lookup, nothing is stored.\<close>

definition dict_get :: "string set \<Rightarrow> string \<Rightarrow> unit option" where
  "dict_get m k = None"

text \<open>The loop over \<^verbatim>\<open>splits["train"]\<close>.\<close>

fun create_dict_train ::
  "bool \<Rightarrow> bool \<Rightarrow> 'net wclstm \<Rightarrow> candidate list \<Rightarrow> py_error + 'net wclstm" where
  "create_dict_train word char self [] = Inr self"
| "create_dict_train word char self (c # cs) =
     (let words = candidate_to_tokens c in
      case (if word
            then (case word_dict self of
                    None \<Rightarrow> Inl AttributeError
                  | Some t \<Rightarrow> Inr (self\<lparr>word_dict := Some (fst (map_get t words))\<rparr>))
            else Inr self) of
        Inl e \<Rightarrow> Inl e
      | Inr self1 \<Rightarrow>
          (case (if char
                 then (case char_dict self1 of
                         None \<Rightarrow> Inl AttributeError
                       | Some t \<Rightarrow>
                           Inr (self1\<lparr>char_dict :=
                                  Some (fst (map_get t (py_list (py_join '' '' words))))\<rparr>))
                 else Inr self1) of
             Inl e \<Rightarrow> Inl e
           | Inr self2 \<Rightarrow> create_dict_train word char self2 cs))"

text \<open>
  The inner loop over one candidate set of \<^verbatim>\<open>splits["test"]\<close>. Both updates are guarded by
  \<^verbatim>\<open>if word\<close> in the source.
\<close>

fun create_dict_candset :: "bool \<Rightarrow> 'net wclstm \<Rightarrow> candidate list \<Rightarrow> py_error + 'net wclstm" where
  "create_dict_candset word self [] = Inr self"
| "create_dict_candset word self (c # cs) =
     (let words = candidate_to_tokens c in
      case (if word
            then (case word_dict_all self of
                    None \<Rightarrow> Inl AttributeError
                  | Some m \<Rightarrow> Inr (self\<lparr>word_dict_all := Some (m \<union> set words)\<rparr>))
            else Inr self) of
        Inl e \<Rightarrow> Inl e
      | Inr self1 \<Rightarrow>
          (case (if word
                 then (case char_dict_all self1 of
                         None \<Rightarrow> Inl AttributeError
                       | Some m \<Rightarrow>
                           Inr (self1\<lparr>char_dict_all :=
                                  Some (m \<union> set (py_list (py_join '' '' words)))\<rparr>))
                 else Inr self1) of
             Inl e \<Rightarrow> Inl e
           | Inr self2 \<Rightarrow> create_dict_candset word self2 cs))"

fun create_dict_test :: "bool \<Rightarrow> 'net wclstm \<Rightarrow> candidate list list \<Rightarrow> py_error + 'net wclstm" where
  "create_dict_test word self [] = Inr self"
| "create_dict_test word self (candset # rest) =
     (case create_dict_candset word self candset of
        Inl e \<Rightarrow> Inl e
      | Inr self1 \<Rightarrow> create_dict_test word self1 rest)"

text \<open>
  \<^verbatim>\<open>create_dict(self, splits, word=True, char=True)\<close>. With \<^verbatim>\<open>char\<close> set, the padding line is
  \<^verbatim>\<open>map(self.char_dict_all.get, self.char_marker)\<close>: two lookups in the dictionary
  \<^verbatim>\<open>char_dict_all\<close> that was just created empty, whose results are dropped. The two
  \<^verbatim>\<open>print\<close> statements at the end read \<^verbatim>\<open>self.word_dict.s\<close> and \<^verbatim>\<open>self.word_dict_all\<close>.
\<close>

definition create_dict :: "'net wclstm \<Rightarrow> splits \<Rightarrow> bool \<Rightarrow> bool \<Rightarrow> py_error + 'net wclstm" where
  "create_dict self sp word char =
     (let self1 = (if word
                   then self\<lparr>word_dict := Some (fst (map_get SymbolTable_new word_padding)),
                             word_dict_all := Some {}\<rparr>
                   else self);
          self2 = (if char
                   then (let looked_up = map (dict_get {}) char_marker
                         in self1\<lparr>char_dict := Some SymbolTable_new, char_dict_all := Some {}\<rparr>)
                   else self1)
      in case create_dict_train word char self2 (train_split sp) of
           Inl e \<Rightarrow> Inl e
         | Inr self3 \<Rightarrow>
             (case create_dict_test word self3 (test_split sp) of
                Inl e \<Rightarrow> Inl e
              | Inr self4 \<Rightarrow>
                  (case word_dict self4 of
                     None \<Rightarrow> Inl AttributeError
                   | Some t \<Rightarrow>
                       (case word_dict_all self4 of
                          None \<Rightarrow> Inl AttributeError
                        | Some m \<Rightarrow> Inr self4))))"

section \<open>Parsing the keyword arguments\<close>

text \<open>\<^verbatim>\<open>kwargs.get(key, default)\<close>.\<close>

definition kwargs_get :: "'a option \<Rightarrow> 'a \<Rightarrow> 'a" where
  "kwargs_get v dflt = (case v of None \<Rightarrow> dflt | Some x \<Rightarrow> x)"

text \<open>
  \<^verbatim>\<open>_init_kwargs(self, **kwargs)\<close>: the vocabulary is built first when \<^verbatim>\<open>init_pretrained\<close> is
  given, every attribute takes its value or its default, the two embedding paths are
  asserted when \<^verbatim>\<open>load_emb\<close> is set, and \<^verbatim>\<open>init_pretrained\<close> is deleted from the stored
  keyword arguments.
\<close>

definition init_kwargs :: "'net wclstm \<Rightarrow> kwargs \<Rightarrow> py_error + 'net wclstm" where
  "init_kwargs self kw =
     (case (case kw_init_pretrained kw of
              None \<Rightarrow> Inr self
            | Some sp \<Rightarrow> create_dict self sp True True) of
        Inl e \<Rightarrow> Inl e
      | Inr self1 \<Rightarrow>
          (let c = \<lparr>load_emb = kwargs_get (kw_load_emb kw) False,
                    word_emb_dim = kwargs_get (kw_word_emb_dim kw) 300,
                    char_emb_dim = kwargs_get (kw_char_emb_dim kw) 300,
                    word_emb_path = kw_word_emb_path kw,
                    char_emb_path = kw_char_emb_path kw,
                    lr = kwargs_get (kw_lr kw) (1 / 1000),
                    attention = kwargs_get (kw_attention kw) True,
                    n_epochs = kwargs_get (kw_n_epochs kw) 100,
                    dropout = kwargs_get (kw_dropout kw) 0,
                    batch_size = kwargs_get (kw_batch_size kw) 100,
                    rebalance = kwargs_get (kw_rebalance kw) False,
                    char_gram = kwargs_get (kw_char_gram kw) 3,
                    lstm_hidden_dim = kwargs_get (kw_lstm_hidden_dim kw) 100,
                    bidirectional = kwargs_get (kw_bidirectional kw) True,
                    max_sentence_length = kwargs_get (kw_max_sentence_length kw) 100,
                    max_word_length = kwargs_get (kw_max_word_length kw) 20,
                    host_device = kwargs_get (kw_host_device kw) ''cpu'',
                    replace = kwargs_get (kw_replace kw) [],
                    patience = kwargs_get (kw_patience kw) 100\<rparr>
           in if load_emb c \<and> word_emb_path c = None then Inl (AssertionError [])
              else if load_emb c \<and> char_emb_path c = None then Inl (AssertionError [])
              else Inr (self1\<lparr>cfg := c, model_kwargs := kw\<lparr>kw_init_pretrained := None\<rparr>\<rparr>)))"

section \<open>Files\<close>

text \<open>
  What a file holds: the lines of a text file, or one pickled object. \<^verbatim>\<open>model_dicts.pkl\<close> is
  a dictionary with the keys \<^verbatim>\<open>char_dict\<close> and \<^verbatim>\<open>word_dict\<close>, and with \<^verbatim>\<open>char_emb\<close> and
  \<^verbatim>\<open>word_emb\<close> when the embeddings were saved.
\<close>

record model_dicts =
  pkl_char_dict :: SymbolTable
  pkl_word_dict :: SymbolTable
  pkl_char_emb :: "real list list option"
  pkl_word_emb :: "real list list option"

datatype 'net file_content =
    TextFile "string list"
  | KwargsPkl kwargs
  | DictsPkl model_dicts
  | NetFile 'net

record 'net filesystem =
  dirs :: "string set"
  files :: "string \<rightharpoonup> 'net file_content"

text \<open>\<^verbatim>\<open>os.path.join(a, b)\<close> on a POSIX system.\<close>

definition path_join :: "string \<Rightarrow> string \<Rightarrow> string" where
  "path_join a b =
     (if b \<noteq> [] \<and> hd b = CHR ''/'' then b
      else if a = [] \<or> last a = CHR ''/'' then a @ b
      else a @ ''/'' @ b)"

text \<open>
  Opening a file for reading and iterating over its lines. A path that is \<^verbatim>\<open>None\<close> is a
  \<open>TypeError\<close>, a missing file an \<open>IOError\<close>; a file that holds a pickled object is not
  readable as lines of text here.
\<close>

definition read_lines :: "'net filesystem \<Rightarrow> string option \<Rightarrow> py_error + string list" where
  "read_lines fs path =
     (case path of
        None \<Rightarrow> Inl TypeError
      | Some p \<Rightarrow>
          (case files fs p of
             Some (TextFile lns) \<Rightarrow> Inr lns
           | _ \<Rightarrow> Inl IOError))"

section \<open>String operations of the embedding reader\<close>

text \<open>\<^verbatim>\<open>str.strip()\<close>: the whitespace bytes are removed at both ends.\<close>

definition is_space :: "char \<Rightarrow> bool" where
  "is_space c = (c \<in> set [CHR '' '', CHR 0x09, CHR 0x0A, CHR 0x0B, CHR 0x0C, CHR 0x0D])"

definition py_strip :: "string \<Rightarrow> string" where
  "py_strip str = rev (dropWhile is_space (rev (dropWhile is_space str)))"

text \<open>\<^verbatim>\<open>str.split(sep)\<close> for a separator of one character: never an empty list.\<close>

fun py_split :: "char \<Rightarrow> string \<Rightarrow> string list" where
  "py_split sep [] = [[]]"
| "py_split sep (c # cs) =
     (if c = sep then [] # py_split sep cs
      else (case py_split sep cs of
              [] \<Rightarrow> [[c]]
            | w # ws \<Rightarrow> (c # w) # ws))"

text \<open>
  \<^verbatim>\<open>str.replace(old, new)\<close>: every occurrence of \<open>old\<close>, found from the left without
  overlap; an empty \<open>old\<close> matches before every character and at the end.
\<close>

function py_replace :: "string \<Rightarrow> string \<Rightarrow> string \<Rightarrow> string" where
  "py_replace old new str =
     (if old = [] then new @ concat (map (\<lambda>c. c # new) str)
      else if str = [] then []
      else if take (length old) str = old
      then new @ py_replace old new (drop (length old) str)
      else hd str # py_replace old new (tl str))"
  by pat_completeness auto
termination
  by (relation "measure (\<lambda>(old, new, str). length str)") auto

declare py_replace.simps [simp del]

text \<open>
  \<^verbatim>\<open>for key in self.replace.keys(): word = word.replace(key, self.replace[key])\<close>.
\<close>

fun replace_keys :: "(string \<times> string) list \<Rightarrow> string \<Rightarrow> string" where
  "replace_keys [] word = word"
| "replace_keys ((key, val) # rest) word = replace_keys rest (py_replace key val word)"

text \<open>\<^verbatim>\<open>path.split(".")[-1] == "vec"\<close> selects the format with a header line.\<close>

definition is_fastText :: "string \<Rightarrow> bool" where
  "is_fastText path = (last (py_split CHR ''.'' path) = ''vec'')"

section \<open>Loading the vocabulary of the embedding files\<close>

text \<open>
  The loop over the lines of an embedding file in \<^verbatim>\<open>load_dict\<close>, from line number \<open>i\<close>: with
  \<open>skip\<close> set the line numbered 0 is passed over; any other line is split, its number of
  fields is asserted, and its token is kept when \<open>dict_all\<close> exists and contains it. The
  result is the list \<^verbatim>\<open>l\<close>.
\<close>

fun load_dict_lines ::
  "string \<Rightarrow> bool \<Rightarrow> int \<Rightarrow> (string \<times> string) list \<Rightarrow> string set option \<Rightarrow> nat \<Rightarrow>
   string list \<Rightarrow> py_error + string list" where
  "load_dict_lines msg skip emb_dim rep dict_all i [] = Inr []"
| "load_dict_lines msg skip emb_dim rep dict_all i (raw # lns) =
     (if skip \<and> i = 0 then load_dict_lines msg skip emb_dim rep dict_all (Suc i) lns
      else
        (let line = py_split CHR '' '' (py_strip raw) in
         if int (length line) \<noteq> emb_dim + 1 then Inl (AssertionError msg)
         else
           (let word = replace_keys rep (line ! 0) in
            case load_dict_lines msg skip emb_dim rep dict_all (Suc i) lns of
              Inl e \<Rightarrow> Inl e
            | Inr l \<Rightarrow>
                Inr (if (case dict_all of None \<Rightarrow> False | Some m \<Rightarrow> word \<in> m)
                     then word # l else l))))"

definition word_msg :: string where
  "word_msg = ''Word embedding dimension doesn't match!''"

definition char_msg :: string where
  "char_msg = ''Char embedding dimension doesn't match!''"

text \<open>
  \<^verbatim>\<open>load_dict(self)\<close>. After the words are added, the coverage line divides by the size of
  \<^verbatim>\<open>word_dict_all\<close> when that attribute exists, which raises on an empty dictionary.
\<close>

definition load_dict :: "'net filesystem \<Rightarrow> 'net wclstm \<Rightarrow> py_error + 'net wclstm" where
  "load_dict fs self =
     (let wd = fst (map_get (case word_dict self of None \<Rightarrow> SymbolTable_new | Some t \<Rightarrow> t)
                      word_padding);
          cd = fst (map_get (case char_dict self of None \<Rightarrow> SymbolTable_new | Some t \<Rightarrow> t)
                      char_marker)
      in case read_lines fs (word_emb_path (cfg self)) of
           Inl e \<Rightarrow> Inl e
         | Inr wlines \<Rightarrow>
             (case load_dict_lines word_msg (is_fastText (the (word_emb_path (cfg self))))
                     (word_emb_dim (cfg self)) (replace (cfg self)) (word_dict_all self) 0 wlines of
                Inl e \<Rightarrow> Inl e
              | Inr l \<Rightarrow>
                  (let wd' = fst (map_get wd l) in
                   if word_dict_all self = Some {} then Inl ZeroDivisionError
                   else
                     (case read_lines fs (char_emb_path (cfg self)) of
                        Inl e \<Rightarrow> Inl e
                      | Inr clines \<Rightarrow>
                          (case load_dict_lines char_msg False (char_emb_dim (cfg self))
                                  (replace (cfg self)) (char_dict_all self) 0 clines of
                             Inl e \<Rightarrow> Inl e
                           | Inr l' \<Rightarrow>
                               Inr (self\<lparr>word_dict := Some wd',
                                         char_dict := Some (fst (map_get cd l'))\<rparr>))))))"

section \<open>Loading the embedding matrices\<close>

text \<open>\<^verbatim>\<open>[float(_) for _ in fields]\<close>, with the parser of decimal numbers as a parameter.\<close>

fun parse_floats :: "(string \<Rightarrow> real option) \<Rightarrow> string list \<Rightarrow> py_error + real list" where
  "parse_floats py_float [] = Inr []"
| "parse_floats py_float (x # xs) =
     (case py_float x of
        None \<Rightarrow> Inl (ValueError ''could not convert string to float'')
      | Some v \<Rightarrow>
          (case parse_floats py_float xs of
             Inl e \<Rightarrow> Inl e
           | Inr vs \<Rightarrow> Inr (v # vs)))"

text \<open>
  \<^verbatim>\<open>emb[i] = vec\<close> for an array of two dimensions: the row must exist, and the vector has
  the width of the row or is a single value spread over the row.
\<close>

definition set_row :: "real list list \<Rightarrow> nat \<Rightarrow> real list \<Rightarrow> py_error + real list list" where
  "set_row emb i vec =
     (if i \<ge> length emb then Inl IndexError
      else if length vec = length (emb ! i) then Inr (emb[i := vec])
      else if length vec = 1 then Inr (emb[i := replicate (length (emb ! i)) (hd vec)])
      else Inl (ValueError ''could not broadcast input array''))"

text \<open>The class attribute \<^verbatim>\<open>unknown_symbol\<close>.\<close>

definition unknown_symbol :: nat where
  "unknown_symbol = 1"

text \<open>
  The loop over the lines of an embedding file in \<^verbatim>\<open>load_embeddings\<close>: the right-hand side
  of the row assignment is evaluated before the row index.
\<close>

fun load_emb_lines ::
  "(string \<Rightarrow> real option) \<Rightarrow> string \<Rightarrow> bool \<Rightarrow> int \<Rightarrow> (string \<times> string) list \<Rightarrow>
   SymbolTable \<Rightarrow> nat \<Rightarrow> string list \<Rightarrow> real list list \<Rightarrow> py_error + real list list" where
  "load_emb_lines py_float msg skip emb_dim rep t i [] emb = Inr emb"
| "load_emb_lines py_float msg skip emb_dim rep t i (raw # lns) emb =
     (if skip \<and> i = 0 then load_emb_lines py_float msg skip emb_dim rep t (Suc i) lns emb
      else
        (let line = py_split CHR '' '' (py_strip raw) in
         if int (length line) \<noteq> emb_dim + 1 then Inl (AssertionError msg)
         else
           (let tok = replace_keys rep (line ! 0) in
            if lookup t tok \<noteq> unknown_symbol
            then (case parse_floats py_float (py_slice line (- emb_dim) (int (length line))) of
                    Inl e \<Rightarrow> Inl e
                  | Inr vec \<Rightarrow>
                      (case lookup_strict t tok of
                         Inl e \<Rightarrow> Inl e
                       | Inr row \<Rightarrow>
                           (case set_row emb row vec of
                              Inl e \<Rightarrow> Inl e
                            | Inr emb' \<Rightarrow>
                                load_emb_lines py_float msg skip emb_dim rep t (Suc i) lns emb')))
            else load_emb_lines py_float msg skip emb_dim rep t (Suc i) lns emb)))"

text \<open>
  \<^verbatim>\<open>np.random.uniform(-0.1, 0.1, (rows, emb_dim))\<close>: the sample is a parameter, a function from
  the shape to the matrix drawn; a negative dimension is refused.
\<close>

definition uniform ::
  "(nat \<Rightarrow> nat \<Rightarrow> real list list) \<Rightarrow> nat \<Rightarrow> int \<Rightarrow> py_error + real list list" where
  "uniform sample rows emb_dim =
     (if emb_dim < 0 then Inl (ValueError ''negative dimensions are not allowed'')
      else Inr (sample rows (nat emb_dim)))"

text \<open>
  \<^verbatim>\<open>load_embeddings(self)\<close>: \<open>sample_w\<close> and \<open>sample_c\<close> are the two draws of the random
  source, \<open>py_float\<close> the parser of numbers.
\<close>

definition load_embeddings ::
  "(nat \<Rightarrow> nat \<Rightarrow> real list list) \<Rightarrow> (nat \<Rightarrow> nat \<Rightarrow> real list list) \<Rightarrow>
   (string \<Rightarrow> real option) \<Rightarrow> 'net filesystem \<Rightarrow> 'net wclstm \<Rightarrow> py_error + 'net wclstm" where
  "load_embeddings sample_w sample_c py_float fs self =
     (case load_dict fs self of
        Inl e \<Rightarrow> Inl e
      | Inr self1 \<Rightarrow>
          (case (word_dict self1, char_dict self1) of
             (Some wd, Some cd) \<Rightarrow>
               (case uniform sample_w (s wd) (word_emb_dim (cfg self1)) of
                  Inl e \<Rightarrow> Inl e
                | Inr wemb \<Rightarrow>
                    (case uniform sample_c (s cd) (char_emb_dim (cfg self1)) of
                       Inl e \<Rightarrow> Inl e
                     | Inr cemb \<Rightarrow>
                         (case read_lines fs (word_emb_path (cfg self1)) of
                            Inl e \<Rightarrow> Inl e
                          | Inr wlines \<Rightarrow>
                              (case load_emb_lines py_float word_msg
                                      (is_fastText (the (word_emb_path (cfg self1))))
                                      (word_emb_dim (cfg self1)) (replace (cfg self1)) wd 0
                                      wlines wemb of
                                 Inl e \<Rightarrow> Inl e
                               | Inr wemb' \<Rightarrow>
                                   (case read_lines fs (char_emb_path (cfg self1)) of
                                      Inl e \<Rightarrow> Inl e
                                    | Inr clines \<Rightarrow>
                                        (case load_emb_lines py_float char_msg False
                                                (char_emb_dim (cfg self1)) (replace (cfg self1))
                                                cd 0 clines cemb of
                                           Inl e \<Rightarrow> Inl e
                                         | Inr cemb' \<Rightarrow>
                                             Inr (self1\<lparr>word_emb := Some wemb',
                                                        char_emb := Some cemb'\<rparr>)))))))
           | _ \<Rightarrow> Inl AttributeError))"

section \<open>Saving and loading a model\<close>

text \<open>\<^verbatim>\<open>model_name or self.name\<close>: an absent or empty name gives the name of the class.\<close>

definition name_or :: "'net wclstm \<Rightarrow> string option \<Rightarrow> string" where
  "name_or self model_name =
     (case model_name of None \<Rightarrow> name self | Some n \<Rightarrow> if n = [] then name self else n)"

definition path_exists :: "'net filesystem \<Rightarrow> string \<Rightarrow> bool" where
  "path_exists fs p = (p \<in> dirs fs \<or> files fs p \<noteq> None)"

text \<open>
  Writing a whole file, by \<^verbatim>\<open>dump\<close> into a file opened with \<^verbatim>\<open>'wb'\<close> or by \<^verbatim>\<open>torch.save\<close>;
  the write itself is taken to succeed.
\<close>

definition write_file :: "'net filesystem \<Rightarrow> string \<Rightarrow> 'net file_content \<Rightarrow> 'net filesystem" where
  "write_file fs p c = fs\<lparr>files := (files fs)(p \<mapsto> c)\<rparr>"

definition kwargs_path :: "string \<Rightarrow> string" where
  "kwargs_path model_dir = path_join model_dir ''model_kwargs.pkl''"

definition dicts_path :: "string \<Rightarrow> string" where
  "dicts_path model_dir = path_join model_dir ''model_dicts.pkl''"

definition word_model_path :: "string \<Rightarrow> string \<Rightarrow> string" where
  "word_model_path model_dir mname = path_join model_dir (mname @ ''_word_model'')"

definition char_model_path :: "string \<Rightarrow> string \<Rightarrow> string" where
  "char_model_path model_dir mname = path_join model_dir (mname @ ''_char_model'')"

text \<open>
  The block of \<^verbatim>\<open>save\<close> under \<^verbatim>\<open>if not only_param\<close>: the keyword arguments, then the two
  symbol tables, with the two embedding matrices when \<^verbatim>\<open>load_emb\<close> is set.
\<close>

definition save_config :: "'net filesystem \<Rightarrow> 'net wclstm \<Rightarrow> string \<Rightarrow> py_error + 'net filesystem" where
  "save_config fs self model_dir =
     (let fs1 = write_file fs (kwargs_path model_dir) (KwargsPkl (model_kwargs self)) in
      case (char_dict self, word_dict self) of
        (Some cd, Some wd) \<Rightarrow>
          (if load_emb (cfg self)
           then (case (char_emb self, word_emb self) of
                   (Some ce, Some we) \<Rightarrow>
                     Inr (write_file fs1 (dicts_path model_dir)
                            (DictsPkl \<lparr>pkl_char_dict = cd, pkl_word_dict = wd,
                                       pkl_char_emb = Some ce, pkl_word_emb = Some we\<rparr>))
                 | _ \<Rightarrow> Inl AttributeError)
           else Inr (write_file fs1 (dicts_path model_dir)
                       (DictsPkl \<lparr>pkl_char_dict = cd, pkl_word_dict = wd,
                                  pkl_char_emb = None, pkl_word_emb = None\<rparr>)))
      | _ \<Rightarrow> Inl AttributeError)"

text \<open>\<^verbatim>\<open>save(self, model_name=None, save_dir='checkpoints', verbose=True, only_param=False)\<close>.\<close>

definition save ::
  "'net filesystem \<Rightarrow> 'net wclstm \<Rightarrow> string option \<Rightarrow> string \<Rightarrow> bool \<Rightarrow>
   py_error + 'net filesystem" where
  "save fs self model_name save_dir only_param =
     (let mname = name_or self model_name;
          model_dir = path_join save_dir mname;
          fs1 = (if path_exists fs model_dir then fs
                 else fs\<lparr>dirs := insert model_dir (dirs fs)\<rparr>)
      in case (if \<not> only_param then save_config fs1 self model_dir else Inr fs1) of
           Inl e \<Rightarrow> Inl e
         | Inr fs2 \<Rightarrow>
             (case word_model self of
                None \<Rightarrow> Inl AttributeError
              | Some wm \<Rightarrow>
                  (case char_model self of
                     None \<Rightarrow> Inl AttributeError
                   | Some cm \<Rightarrow>
                       Inr (write_file
                              (write_file fs2 (word_model_path model_dir mname) (NetFile wm))
                              (char_model_path model_dir mname) (NetFile cm)))))"

text \<open>
  The block of \<^verbatim>\<open>load\<close> under \<^verbatim>\<open>if not only_param\<close>: the stored keyword arguments go through
  \<^verbatim>\<open>_init_kwargs\<close>, then the symbol tables, and the matrices when \<^verbatim>\<open>load_emb\<close> is set, are
  read back. A missing file is an \<open>IOError\<close>.
\<close>

definition load_config :: "'net filesystem \<Rightarrow> 'net wclstm \<Rightarrow> string \<Rightarrow> py_error + 'net wclstm" where
  "load_config fs self model_dir =
     (case files fs (kwargs_path model_dir) of
        None \<Rightarrow> Inl IOError
      | Some (KwargsPkl kw) \<Rightarrow>
          (case init_kwargs self kw of
             Inl e \<Rightarrow> Inl e
           | Inr self1 \<Rightarrow>
               (case files fs (dicts_path model_dir) of
                  None \<Rightarrow> Inl IOError
                | Some (DictsPkl dd) \<Rightarrow>
                    (if load_emb (cfg self1)
                     then (case (pkl_char_emb dd, pkl_word_emb dd) of
                             (Some ce, Some we) \<Rightarrow>
                               Inr (self1\<lparr>char_dict := Some (pkl_char_dict dd),
                                          word_dict := Some (pkl_word_dict dd),
                                          char_emb := Some ce, word_emb := Some we\<rparr>)
                           | _ \<Rightarrow> Inl KeyError)
                     else Inr (self1\<lparr>char_dict := Some (pkl_char_dict dd),
                                     word_dict := Some (pkl_word_dict dd)\<rparr>))
                | Some (TextFile _) \<Rightarrow> Inl UnpicklingError
                | Some _ \<Rightarrow> Inl TypeError))
      | Some (TextFile _) \<Rightarrow> Inl UnpicklingError
      | Some _ \<Rightarrow> Inl TypeError)"

text \<open>\<^verbatim>\<open>torch.load(path)\<close>.\<close>

definition torch_load :: "'net filesystem \<Rightarrow> string \<Rightarrow> py_error + 'net" where
  "torch_load fs p =
     (case files fs p of
        None \<Rightarrow> Inl IOError
      | Some (NetFile m) \<Rightarrow> Inr m
      | Some _ \<Rightarrow> Inl UnpicklingError)"

text \<open>\<^verbatim>\<open>load(self, model_name=None, save_dir='checkpoints', verbose=True, only_param=False)\<close>.\<close>

definition load ::
  "'net filesystem \<Rightarrow> 'net wclstm \<Rightarrow> string option \<Rightarrow> string \<Rightarrow> bool \<Rightarrow>
   py_error + 'net wclstm" where
  "load fs self model_name save_dir only_param =
     (let mname = name_or self model_name;
          model_dir = path_join save_dir mname
      in case (if \<not> only_param then load_config fs self model_dir else Inr self) of
           Inl e \<Rightarrow> Inl e
         | Inr self1 \<Rightarrow>
             (case torch_load fs (word_model_path model_dir mname) of
                Inl e \<Rightarrow> Inl e
              | Inr wm \<Rightarrow>
                  (case torch_load fs (char_model_path model_dir mname) of
                     Inl e \<Rightarrow> Inl e
                   | Inr cm \<Rightarrow> Inr (self1\<lparr>word_model := Some wm, char_model := Some cm\<rparr>))))"

section \<open>Training\<close>

text \<open>
  The training marginals, an array of one or of two dimensions; for two dimensions the
  number of columns is kept beside the rows, since an array without rows still has it.
  The entries are floating-point numbers in the source and real numbers here, so a
  comparison is modelled without rounding.
\<close>

datatype marginals = Vec "real list" | Mat nat "real list list"

text \<open>\<^verbatim>\<open>Y_train.shape[1] if len(Y_train.shape) > 1 else 2\<close>.\<close>

definition shape_cardinality :: "marginals \<Rightarrow> int" where
  "shape_cardinality Y = (case Y of Vec _ \<Rightarrow> 2 | Mat k _ \<Rightarrow> int k)"

text \<open>\<^verbatim>\<open>np.all(Y_train.sum(axis=1) - 1 < 1e-10)\<close>; an array of one dimension has no axis 1.\<close>

definition rows_sum_check :: "marginals \<Rightarrow> py_error + bool" where
  "rows_sum_check Y =
     (case Y of
        Vec _ \<Rightarrow> Inl AxisError
      | Mat k rows \<Rightarrow> Inr (list_all (\<lambda>r. sum_list r - 1 < 1 / 10 ^ 10) rows))"

text \<open>\<^verbatim>\<open>np.all(Y_train >= 0)\<close>.\<close>

definition all_nonneg :: "marginals \<Rightarrow> bool" where
  "all_nonneg Y =
     (case Y of
        Vec ys \<Rightarrow> list_all (\<lambda>y. y \<ge> 0) ys
      | Mat k rows \<Rightarrow> list_all (list_all (\<lambda>y. y \<ge> 0)) rows)"

text \<open>
  The validation of the marginals at the head of \<^verbatim>\<open>train\<close>. The text of the first error
  reads \<^verbatim>\<open>Y_train.shape[1]\<close>, which an array of one dimension does not have.
  \<open>reshape_marginals\<close> is the function of that name of \<^verbatim>\<open>snorkel.learning.utils\<close>, which is not
  among the sources: a parameter.
\<close>

definition check_marginals ::
  "(marginals \<Rightarrow> marginals) \<Rightarrow> 'net wclstm \<Rightarrow> marginals \<Rightarrow> py_error + marginals" where
  "check_marginals reshape_marginals self Y_train =
     (if shape_cardinality Y_train \<noteq> cardinality self
      then (case Y_train of
              Vec _ \<Rightarrow> Inl IndexError
            | Mat k _ \<Rightarrow>
                Inl (ValueError (''Training marginals cardinality ('' @ str_nat k @
                       '') does not'' @ ''match model cardinality ('' @
                       str_int (cardinality self) @ '').'')))
      else
        (let Y = reshape_marginals Y_train in
         case (if cardinality self > 2 then rows_sum_check Y else Inr True) of
           Inl e \<Rightarrow> Inl e
         | Inr stochastic \<Rightarrow>
             if \<not> stochastic
             then Inl (ValueError ''Y_train must be row-stochastic (rows sum to 1).'')
             else if \<not> all_nonneg Y
             then Inl (ValueError ''Y_train must have values in [0,1].'')
             else Inr Y))"

text \<open>\<^verbatim>\<open>[xs[j] for j in idxs]\<close>.\<close>

fun select :: "'a list \<Rightarrow> nat list \<Rightarrow> py_error + 'a list" where
  "select xs [] = Inr []"
| "select xs (j # js) =
     (if j \<ge> length xs then Inl IndexError
      else (case select xs js of Inl e \<Rightarrow> Inl e | Inr ys \<Rightarrow> Inr (xs ! j # ys)))"

definition select_marginals :: "marginals \<Rightarrow> nat list \<Rightarrow> py_error + marginals" where
  "select_marginals Y idxs =
     (case Y of
        Vec ys \<Rightarrow> (case select ys idxs of Inl e \<Rightarrow> Inl e | Inr zs \<Rightarrow> Inr (Vec zs))
      | Mat k rows \<Rightarrow> (case select rows idxs of Inl e \<Rightarrow> Inl e | Inr zs \<Rightarrow> Inr (Mat k zs)))"

definition row_max :: "real list \<Rightarrow> real" where
  "row_max r = fold max (tl r) (hd r)"

definition row_min :: "real list \<Rightarrow> real" where
  "row_min r = fold min (tl r) (hd r)"

text \<open>
  The indices kept for training: those of the label balancer in the binary setting, and
  in the categorical setting the rows whose largest and smallest entry differ by more
  than \<^verbatim>\<open>1e-6\<close>. \<open>get_train_idxs\<close> stands for \<^verbatim>\<open>LabelBalancer(Y_train).get_train_idxs\<close>, whose
  class is not among the sources.
\<close>

definition train_idxs ::
  "(marginals \<Rightarrow> bool \<Rightarrow> nat list) \<Rightarrow> 'net wclstm \<Rightarrow> marginals \<Rightarrow> py_error + nat list" where
  "train_idxs get_train_idxs self Y =
     (if cardinality self = 2 then Inr (get_train_idxs Y (rebalance (cfg self)))
      else (case Y of
              Vec _ \<Rightarrow> Inl AxisError
            | Mat k rows \<Rightarrow>
                if k = 0
                then Inl (ValueError ''zero-size array to reduction operation'')
                else Inr (filter (\<lambda>i. row_max (rows ! i) - row_min (rows ! i) > 1 / 10 ^ 6)
                            [0 ..< length rows])))"

text \<open>
  What \<^verbatim>\<open>train\<close> takes from outside the class: the functions of the absent modules, the
  draws of the random source, the constructors of the two encoders (with the copy of the
  embedding weights and the move to the device), one epoch of the batch loop as a function
  of the epoch index and the two encoders, and the dev score of the model
  (\<^verbatim>\<open>scores\<close> or \<^verbatim>\<open>scores[-1]\<close> by cardinality).
\<close>

record 'net env =
  mark_sentence_impl :: "string list \<Rightarrow> (int \<times> int \<times> int) list \<Rightarrow> string list"
  reshape_marginals_impl :: "marginals \<Rightarrow> marginals"
  get_train_idxs_impl :: "marginals \<Rightarrow> bool \<Rightarrow> nat list"
  sample_w_impl :: "nat \<Rightarrow> nat \<Rightarrow> real list list"
  sample_c_impl :: "nat \<Rightarrow> nat \<Rightarrow> real list list"
  py_float_impl :: "string \<Rightarrow> real option"
  CharRNN_impl :: "'net wclstm \<Rightarrow> 'net"
  WordRNN_impl :: "'net wclstm \<Rightarrow> 'net"
  train_epoch_impl ::
    "nat list list \<Rightarrow> nat list list list \<Rightarrow> marginals \<Rightarrow> nat \<Rightarrow> 'net \<Rightarrow> 'net \<Rightarrow> 'net \<times> 'net"
  score_impl :: "'net wclstm \<Rightarrow> candidate list \<Rightarrow> marginals option \<Rightarrow> real"

text \<open>
  The state of a run of the epoch loop: the instance, the files, the two local variables
  \<^verbatim>\<open>dev_score_opt\<close> and \<^verbatim>\<open>last_epoch_opt\<close>, and the epoch index at which the halting line was
  printed and the loop left, if it was.
\<close>

record 'net run =
  model :: "'net wclstm"
  disk :: "'net filesystem"
  dev_score_opt :: real
  last_epoch_opt :: "nat option"
  halted :: "nat option"

text \<open>
  The part of \<^verbatim>\<open>train\<close> before the epoch loop: the keyword arguments, the validation and
  filtering of the marginals, the preprocessing in extend mode, the embeddings when
  \<^verbatim>\<open>load_emb\<close> is set, and the construction of the two encoders.
\<close>

definition train_setup ::
  "'net env \<Rightarrow> 'net filesystem \<Rightarrow> 'net wclstm \<Rightarrow> candidate list \<Rightarrow> marginals \<Rightarrow> kwargs \<Rightarrow>
   py_error + ('net wclstm \<times> nat list list \<times> nat list list list \<times> marginals)" where
  "train_setup env fs self X_train Y_train kw =
     (case init_kwargs self kw of
        Inl e \<Rightarrow> Inl e
      | Inr self1 \<Rightarrow>
     (case check_marginals (reshape_marginals_impl env) self1 Y_train of
        Inl e \<Rightarrow> Inl e
      | Inr Y \<Rightarrow>
     (case train_idxs (get_train_idxs_impl env) self1 Y of
        Inl e \<Rightarrow> Inl e
      | Inr idxs \<Rightarrow>
     (case select X_train idxs of
        Inl e \<Rightarrow> Inl e
      | Inr X \<Rightarrow>
     (case select_marginals Y idxs of
        Inl e \<Rightarrow> Inl e
      | Inr Y' \<Rightarrow>
     (case preprocess_data (mark_sentence_impl env) self1 X True of
        Inl e \<Rightarrow> Inl e
      | Inr (self2, X_w_train, X_c_train) \<Rightarrow>
     (case (if load_emb (cfg self2)
            then load_embeddings (sample_w_impl env) (sample_c_impl env) (py_float_impl env)
                   fs self2
            else Inr self2) of
        Inl e \<Rightarrow> Inl e
      | Inr self3 \<Rightarrow>
          (let self4 = self3\<lparr>char_model := Some (CharRNN_impl env self3)\<rparr>;
               self5 = self4\<lparr>word_model := Some (WordRNN_impl env self4)\<rparr>
           in Inr (self5, X_w_train, X_c_train, Y')))))))))"

text \<open>
  One pass of the body of \<^verbatim>\<open>for idx in range(self.n_epochs)\<close>: the batches are trained by
  \<open>step\<close>; at a reporting epoch the training error divides by the number of examples, the
  dev score \<open>dev\<close> (absent when \<^verbatim>\<open>X_dev\<close> is \<^verbatim>\<open>None\<close>) is compared with the best one and the
  parameters are saved on an improvement, and the patience test may leave the loop.
\<close>

definition epoch_body ::
  "(nat \<Rightarrow> 'net \<Rightarrow> 'net \<Rightarrow> 'net \<times> 'net) \<Rightarrow> ('net wclstm \<Rightarrow> real) option \<Rightarrow> int \<Rightarrow> bool \<Rightarrow> real \<Rightarrow>
   string \<Rightarrow> nat \<Rightarrow> nat \<Rightarrow> 'net run \<Rightarrow> py_error + 'net run" where
  "epoch_body step dev print_freq dev_ckpt dev_ckpt_delay save_dir n_examples idx r =
     (case (word_model (model r), char_model (model r)) of
        (Some wm, Some cm) \<Rightarrow>
          (let (wm', cm') = step idx wm cm;
               self1 = (model r)\<lparr>word_model := Some wm', char_model := Some cm'\<rparr>;
               r1 = r\<lparr>model := self1\<rparr>;
               past_delay = (real idx > dev_ckpt_delay * real_of_int (n_epochs (cfg self1)))
           in if print_freq > 0 \<and>
                 ((int idx + 1) mod print_freq = 0 \<or> int idx + 1 = n_epochs (cfg self1))
              then
                (if n_examples = 0 then Inl ZeroDivisionError
                 else
                   (case (case dev of
                            None \<Rightarrow> Inr r1
                          | Some score \<Rightarrow>
                              if dev_ckpt \<and> past_delay \<and> score self1 > dev_score_opt r1
                              then (case save (disk r1) self1 None save_dir True of
                                      Inl e \<Rightarrow> Inl e
                                    | Inr fs \<Rightarrow>
                                        Inr (r1\<lparr>dev_score_opt := score self1, disk := fs,
                                                last_epoch_opt := Some idx\<rparr>))
                              else Inr r1) of
                      Inl e \<Rightarrow> Inl e
                    | Inr r2 \<Rightarrow>
                        (case last_epoch_opt r2 of
                           None \<Rightarrow> Inr r2
                         | Some best \<Rightarrow>
                             if int idx - int best > patience (cfg self1) \<and> dev_ckpt \<and> past_delay
                             then Inr (r2\<lparr>halted := Some idx\<rparr>)
                             else Inr r2)))
              else Inr r1)
      | _ \<Rightarrow> Inl AttributeError)"

text \<open>The epoch loop over the indices still to run; \<^verbatim>\<open>break\<close> leaves it.\<close>

fun train_loop ::
  "(nat \<Rightarrow> 'net \<Rightarrow> 'net \<Rightarrow> 'net \<times> 'net) \<Rightarrow> ('net wclstm \<Rightarrow> real) option \<Rightarrow> int \<Rightarrow> bool \<Rightarrow> real \<Rightarrow>
   string \<Rightarrow> nat \<Rightarrow> nat list \<Rightarrow> 'net run \<Rightarrow> py_error + 'net run" where
  "train_loop step dev print_freq dev_ckpt dev_ckpt_delay save_dir n_examples [] r = Inr r"
| "train_loop step dev print_freq dev_ckpt dev_ckpt_delay save_dir n_examples (idx # rest) r =
     (case epoch_body step dev print_freq dev_ckpt dev_ckpt_delay save_dir n_examples idx r of
        Inl e \<Rightarrow> Inl e
      | Inr r1 \<Rightarrow>
          if halted r1 \<noteq> None then Inr r1
          else train_loop step dev print_freq dev_ckpt dev_ckpt_delay save_dir n_examples rest r1)"

text \<open>
  The end of \<^verbatim>\<open>train\<close>: with checkpointing on, a dev set, a positive \<^verbatim>\<open>print_freq\<close> and a
  positive best score, the saved parameters are loaded.
\<close>

definition train_conclude ::
  "bool \<Rightarrow> bool \<Rightarrow> int \<Rightarrow> string \<Rightarrow> 'net run \<Rightarrow> py_error + 'net run" where
  "train_conclude dev_ckpt has_dev print_freq save_dir r =
     (if dev_ckpt \<and> has_dev \<and> print_freq > 0 \<and> dev_score_opt r > 0
      then (case load (disk r) (model r) None save_dir True of
              Inl e \<Rightarrow> Inl e
            | Inr self' \<Rightarrow> Inr (r\<lparr>model := self'\<rparr>))
      else Inr r)"

text \<open>
  \<^verbatim>\<open>train(self, X_train, Y_train, X_dev=None, Y_dev=None, print_freq=5, dev_ckpt=True,
  dev_ckpt_delay=0.75, save_dir='checkpoints', **kwargs)\<close>.
\<close>

definition train ::
  "'net env \<Rightarrow> 'net filesystem \<Rightarrow> 'net wclstm \<Rightarrow> candidate list \<Rightarrow> marginals \<Rightarrow>
   candidate list option \<Rightarrow> marginals option \<Rightarrow> int \<Rightarrow> bool \<Rightarrow> real \<Rightarrow> string \<Rightarrow> kwargs \<Rightarrow>
   py_error + 'net run" where
  "train env fs self X_train Y_train X_dev Y_dev print_freq dev_ckpt dev_ckpt_delay save_dir kw =
     (case train_setup env fs self X_train Y_train kw of
        Inl e \<Rightarrow> Inl e
      | Inr (self1, X_w_train, X_c_train, Y) \<Rightarrow>
          (case train_loop (train_epoch_impl env X_w_train X_c_train Y)
                  (case X_dev of
                     None \<Rightarrow> None
                   | Some xd \<Rightarrow> Some (\<lambda>m. score_impl env m xd Y_dev))
                  print_freq dev_ckpt dev_ckpt_delay save_dir (length X_w_train)
                  [0 ..< nat (n_epochs (cfg self1))]
                  \<lparr>model = self1, disk = fs, dev_score_opt = 0, last_epoch_opt = None,
                   halted = None\<rparr> of
             Inl e \<Rightarrow> Inl e
           | Inr r \<Rightarrow> train_conclude dev_ckpt (X_dev \<noteq> None) print_freq save_dir r))"

section \<open>A configured instance and the vocabulary of the statements\<close>

text \<open>The empty keyword arguments and the configuration that \<^verbatim>\<open>_init_kwargs\<close> derives from them.\<close>

definition no_kwargs :: kwargs where
  "no_kwargs =
     \<lparr>kw_init_pretrained = None, kw_load_emb = None, kw_word_emb_dim = None,
      kw_char_emb_dim = None, kw_word_emb_path = None, kw_char_emb_path = None, kw_lr = None,
      kw_attention = None, kw_n_epochs = None, kw_dropout = None, kw_batch_size = None,
      kw_rebalance = None, kw_char_gram = None, kw_lstm_hidden_dim = None,
      kw_bidirectional = None, kw_max_sentence_length = None, kw_max_word_length = None,
      kw_host_device = None, kw_replace = None, kw_patience = None\<rparr>"

definition default_config :: config where
  "default_config =
     \<lparr>load_emb = False, word_emb_dim = 300, char_emb_dim = 300, word_emb_path = None,
      char_emb_path = None, lr = 1 / 1000, attention = True, n_epochs = 100, dropout = 0,
      batch_size = 100, rebalance = False, char_gram = 3, lstm_hidden_dim = 100,
      bidirectional = True, max_sentence_length = 100, max_word_length = 20,
      host_device = ''cpu'', replace = [], patience = 100\<rparr>"

text \<open>
  An instance of the given cardinality with the name of the class and the default
  configuration, on which no table, matrix or network has been assigned yet.
\<close>

definition new_model :: "int \<Rightarrow> 'net wclstm" where
  "new_model k =
     \<lparr>name = ''WCLSTM'', cardinality = k, cfg = default_config, model_kwargs = no_kwargs,
      word_dict = None, char_dict = None, word_dict_all = None, char_dict_all = None,
      word_emb = None, char_emb = None, word_model = None, char_model = None, warned = []\<rparr>"

text \<open>
  A table is well formed when its unknown id is the one of the class, the next free id
  is past the two reserved ids, no two tokens share an id, and every id lies between the
  reserved ids and the next free id.
\<close>

definition wf_table :: "SymbolTable \<Rightarrow> bool" where
  "wf_table t =
     (unknown t = unknown_symbol \<and> 2 \<le> s t \<and> inj_on (d t) (dom (d t)) \<and>
      (\<forall>w i. d t w = Some i \<longrightarrow> 2 \<le> i \<and> i < s t))"

text \<open>
  The lines of an embedding file that are read as vectors (all but the header when the
  format has one), the fields of a line as the reader splits it, and its token after the
  placeholder substitutions.
\<close>

definition data_lines :: "bool \<Rightarrow> string list \<Rightarrow> string list" where
  "data_lines skip lns = (if skip then drop 1 lns else lns)"

definition fields :: "string \<Rightarrow> string list" where
  "fields raw = py_split CHR '' '' (py_strip raw)"

definition line_token :: "(string \<times> string) list \<Rightarrow> string \<Rightarrow> string" where
  "line_token rep raw = replace_keys rep (fields raw ! 0)"

definition bad_line :: "int \<Rightarrow> string \<Rightarrow> bool" where
  "bad_line emb_dim raw = (int (length (fields raw)) \<noteq> emb_dim + 1)"

text \<open>The directory of a model under the save directory.\<close>

definition model_dir :: "'net wclstm \<Rightarrow> string option \<Rightarrow> string \<Rightarrow> string" where
  "model_dir self model_name save_dir = path_join save_dir (name_or self model_name)"

text \<open>
  An environment for running \<^verbatim>\<open>train\<close> on concrete inputs: an encoder is the number of
  epochs it has been trained for, the dev score is a given function of that number for
  the word encoder, every example is kept by the label balancer, the marginals are
  already in their default format, and the random source draws zeros.
\<close>

definition counting_env :: "(nat \<Rightarrow> real) \<Rightarrow> nat env" where
  "counting_env f =
     \<lparr>mark_sentence_impl = mark_sentence,
      reshape_marginals_impl = (\<lambda>Y. Y),
      get_train_idxs_impl =
        (\<lambda>Y b. case Y of Vec ys \<Rightarrow> [0 ..< length ys] | Mat k rows \<Rightarrow> [0 ..< length rows]),
      sample_w_impl = (\<lambda>r c. replicate r (replicate c 0)),
      sample_c_impl = (\<lambda>r c. replicate r (replicate c 0)),
      py_float_impl = (\<lambda>x. None),
      CharRNN_impl = (\<lambda>m. 0),
      WordRNN_impl = (\<lambda>m. 0),
      train_epoch_impl = (\<lambda>xw xc y idx wm cm. (Suc wm, Suc cm)),
      score_impl = (\<lambda>m xd yd. case word_model m of None \<Rightarrow> 0 | Some n \<Rightarrow> f n)\<rparr>"

text \<open>
  The lines that a reading loop still has to treat as vectors when it stands at line number
  \<open>i\<close> of the remaining lines \<open>lns\<close>.
\<close>

definition read :: "bool \<Rightarrow> nat \<Rightarrow> string list \<Rightarrow> string list" where
  "read skip i lns = (if skip \<and> i = 0 then drop 1 lns else lns)"

text \<open>The vector that a line of an embedding file carries: its last fields, parsed.\<close>

definition line_vector :: "(string \<Rightarrow> real option) \<Rightarrow> int \<Rightarrow> string \<Rightarrow> py_error + real list" where
  "line_vector py_float emb_dim raw =
     parse_floats py_float (py_slice (fields raw) (- emb_dim) (int (length (fields raw))))"

text \<open>
  What numpy gives for a draw of a given shape: that many rows of that width.
\<close>

definition shape_ok :: "(nat \<Rightarrow> nat \<Rightarrow> real list list) \<Rightarrow> bool" where
  "shape_ok sample = (\<forall>r c. length (sample r c) = r \<and> (\<forall>row \<in> set (sample r c). length row = c))"

text \<open>
  The matrix \<open>M\<close> is the random matrix \<open>rnd\<close> with the rows of the tokens of the lines \<open>lns\<close>
  overwritten: it has the rows of \<open>rnd\<close>; a row that is the id of no token of the lines is
  the row of \<open>rnd\<close>, so in particular the row of a token of the table that no line
  carries; and the row of a token of the table that some line carries is the parsed
  vector of a line with that token.
\<close>

definition rows_loaded ::
  "(string \<Rightarrow> real option) \<Rightarrow> int \<Rightarrow> (string \<times> string) list \<Rightarrow> SymbolTable \<Rightarrow> string list \<Rightarrow>
   real list list \<Rightarrow> real list list \<Rightarrow> bool" where
  "rows_loaded py_float emb_dim rep t lns rnd M =
     (length M = length rnd \<and>
      (\<forall>k. (\<forall>raw \<in> set lns. d t (line_token rep raw) \<noteq> Some k) \<longrightarrow> M ! k = rnd ! k) \<and>
      (\<forall>w k. d t w = Some k \<and> w \<notin> line_token rep ` set lns \<longrightarrow> M ! k = rnd ! k) \<and>
      (\<forall>raw \<in> set lns. \<forall>k. d t (line_token rep raw) = Some k \<longrightarrow>
         (\<exists>raw' \<in> set lns. line_token rep raw' = line_token rep raw \<and>
            line_vector py_float emb_dim raw' = Inr (M ! k))))"

text \<open>Two instances that differ at most in their two encoder networks.\<close>

definition same_but_nets :: "'net wclstm \<Rightarrow> 'net wclstm \<Rightarrow> bool" where
  "same_but_nets m m' =
     (m'\<lparr>word_model := None, char_model := None\<rparr> = m\<lparr>word_model := None, char_model := None\<rparr>)"

text \<open>
  The invariant of the epoch loop for the instance \<open>m0\<close> it starts from: the instance of
  the run differs from \<open>m0\<close> in the networks only, the best score is not negative, and once
  a best epoch is recorded the reporting is on, the best score is positive, and the two
  network files of the model directory hold encoders whose dev score is the best score.
\<close>

definition ckpt_inv ::
  "('net wclstm \<Rightarrow> real) \<Rightarrow> int \<Rightarrow> string \<Rightarrow> 'net wclstm \<Rightarrow> 'net run \<Rightarrow> bool" where
  "ckpt_inv score print_freq save_dir m0 r =
     (same_but_nets m0 (model r) \<and> 0 \<le> dev_score_opt r \<and>
      (last_epoch_opt r \<noteq> None \<longrightarrow>
         0 < print_freq \<and> 0 < dev_score_opt r \<and>
         (\<exists>wm cm.
            files (disk r) (word_model_path (model_dir m0 None save_dir) (name m0)) =
              Some (NetFile wm) \<and>
            files (disk r) (char_model_path (model_dir m0 None save_dir) (name m0)) =
              Some (NetFile cm) \<and>
            score (m0\<lparr>word_model := Some wm, char_model := Some cm\<rparr>) = dev_score_opt r)))"

section \<open>Properties of the preprocessing\<close>

lemma length_map_get: "length (snd (map_get t ws)) = length ws"
proof (induction ws arbitrary: t)
  case Nil
  show ?case by simp
next
  case (Cons w ws)
  obtain t1 i where g: "get t w = (t1, i)" by (cases "get t w")
  obtain t2 js where m: "map_get t1 ws = (t2, js)" by (cases "map_get t1 ws")
  have "length js = length ws" using Cons.IH[of t1] m by simp
  then show ?case using g m by simp
qed

lemma length_map_table: "length (snd (map_table ext t ws)) = length ws"
  by (simp add: map_table_def length_map_get)

lemma length_word_char_seq:
  "length (word_char_seq cg w) = nat (max 0 (int (length w) + 2 - cg + 1))"
  by (simp add: word_char_seq_def char_marker_def)

lemma char_seq_counts:
  "map length (snd (char_seq ext cg t sent)) =
     map (\<lambda>w. nat (max 0 (int (length w) + 2 - cg + 1))) sent"
proof (induction sent arbitrary: t)
  case Nil
  show ?case by simp
next
  case (Cons w ws)
  obtain t1 ids where a: "map_table ext t (word_char_seq cg w) = (t1, ids)"
    by (cases "map_table ext t (word_char_seq cg w)")
  obtain t2 rest where b: "char_seq ext cg t1 ws = (t2, rest)"
    by (cases "char_seq ext cg t1 ws")
  have "length ids = length (word_char_seq cg w)"
    using length_map_table[of ext t "word_char_seq cg w"] a by simp
  moreover have "map length rest = map (\<lambda>w. nat (max 0 (int (length w) + 2 - cg + 1))) ws"
    using Cons.IH[of t1] b by simp
  ultimately show ?case using a b by (simp add: length_word_char_seq)
qed

lemma short_token: "int (length w) + 2 < cg \<Longrightarrow> map_table ext t (word_char_seq cg w) = (t, [])"
  by (simp add: word_char_seq_def char_marker_def map_table_def)

lemma char_seq_filter:
  "fst (char_seq ext cg t sent) = fst (char_seq ext cg t (filter (\<lambda>w. cg \<le> int (length w) + 2) sent))"
proof (induction sent arbitrary: t)
  case Nil
  show ?case by simp
next
  case (Cons w ws)
  obtain t1 ids where a: "map_table ext t (word_char_seq cg w) = (t1, ids)"
    by (cases "map_table ext t (word_char_seq cg w)")
  obtain t2 rest where b: "char_seq ext cg t1 ws = (t2, rest)"
    by (cases "char_seq ext cg t1 ws")
  obtain t3 rest' where c: "char_seq ext cg t1 (filter (\<lambda>w. cg \<le> int (length w) + 2) ws) = (t3, rest')"
    by (cases "char_seq ext cg t1 (filter (\<lambda>w. cg \<le> int (length w) + 2) ws)")
  have eq: "t2 = t3" using Cons.IH[of t1] b c by simp
  show ?case
  proof (cases "cg \<le> int (length w) + 2")
    case True
    then show ?thesis using a b c eq by simp
  next
    case False
    then have "map_table ext t (word_char_seq cg w) = (t, [])" by (simp add: short_token)
    with a have "t1 = t" by simp
    then show ?thesis using False a b c eq by simp
  qed
qed

lemma preprocess_loop_counts:
  "preprocess_loop mark ext cg wd cd cands = Inr (wd', cd', W, C) \<Longrightarrow>
   list_all2 (\<lambda>c cs. \<exists>args. mark_args c = Inr args \<and>
        map length cs = map (\<lambda>w. nat (max 0 (int (length w) + 2 - cg + 1))) (mark (candidate_to_tokens c) args)) cands C"
proof (induction cands arbitrary: wd cd W C)
  case Nil
  then show ?case by simp
next
  case (Cons c cs)
  from Cons.prems obtain args where ma: "mark_args c = Inr args"
    by (cases "mark_args c") auto
  define sent where "sent = mark (candidate_to_tokens c) args"
  obtain wd1 wids where mt: "map_table ext wd sent = (wd1, wids)" by (cases "map_table ext wd sent")
  obtain cd1 cids where cs: "char_seq ext cg cd sent = (cd1, cids)" by (cases "char_seq ext cg cd sent")
  from Cons.prems ma mt cs obtain W' C' where
    rest: "preprocess_loop mark ext cg wd1 cd1 cs = Inr (wd', cd', W', C')"
    and W: "W = wids # W'" and C: "C = cids # C'"
    by (auto simp: sent_def Let_def split: sum.splits prod.splits)
  have "map length cids = map (\<lambda>w. nat (max 0 (int (length w) + 2 - cg + 1))) sent"
    using char_seq_counts[of ext cg cd sent] cs by simp
  then show ?case using Cons.IH[OF rest] ma C by (simp add: sent_def)
qed

lemma check_loop_eq:
  "check_loop mx i ends =
     map (\<lambda>k. warning_text (i + k) (ends ! k) mx) (filter (\<lambda>k. ends ! k \<ge> mx) [0 ..< length ends])"
proof (induction ends arbitrary: i)
  case Nil
  show ?case by simp
next
  case (Cons e es)
  have up: "[0 ..< length (e # es)] = 0 # map Suc [0 ..< length es]"
    by (simp add: upt_conv_Cons map_Suc_upt del: upt_Suc)
  show ?case
    unfolding up using Cons.IH[of "Suc i"]
    by (simp add: filter_map comp_def)
qed

lemma preprocess_loop_lengths:
  "preprocess_loop mark ext cg wd cd cands = Inr (wd', cd', W, C) \<Longrightarrow> length W = length cands \<and> length C = length cands"
proof (induction cands arbitrary: wd cd W C)
  case Nil
  then show ?case by simp
next
  case (Cons c cs)
  from Cons.prems obtain args where ma: "mark_args c = Inr args"
    by (cases "mark_args c") auto
  define sent where "sent = mark (candidate_to_tokens c) args"
  obtain wd1 wids where mt: "map_table ext wd sent = (wd1, wids)" by (cases "map_table ext wd sent")
  obtain cd1 cids where cs: "char_seq ext cg cd sent = (cd1, cids)" by (cases "char_seq ext cg cd sent")
  from Cons.prems ma mt cs obtain W' C' where
    rest: "preprocess_loop mark ext cg wd1 cd1 cs = Inr (wd', cd', W', C')"
    and W: "W = wids # W'" and C: "C = cids # C'"
    by (auto simp: sent_def Let_def split: sum.splits prod.splits)
  show ?case using Cons.IH[OF rest] W C by simp
qed

lemma preprocess_data_frame:
  "preprocess_data mark self cands ext = Inr (self', W, C) \<Longrightarrow>
     warned self' = warned self \<and> length W = length cands \<and> length C = length cands"
  by (auto simp: preprocess_data_def Let_def preprocess_loop_lengths split: sum.splits prod.splits)


lemma preprocess_data_counts:
  assumes "preprocess_data mark self cands ext = Inr (self', W, C)"
  shows "list_all2 (\<lambda>c cs. \<exists>args. mark_args c = Inr args \<and>
           map length cs =
             map (\<lambda>w. nat (max 0 (int (length w) + 2 - char_gram (cfg self) + 1)))
               (mark (candidate_to_tokens c) args)) cands C"
proof -
  from assms obtain wd cd wd' cd' where
    "preprocess_loop mark ext (char_gram (cfg self)) wd cd cands = Inr (wd', cd', W, C)"
    by (auto simp: preprocess_data_def Let_def split: sum.splits prod.splits)
  then show ?thesis by (rule preprocess_loop_counts)
qed

lemma is_Inr_caseE:
  assumes "case x of Inl e \<Rightarrow> False | Inr r \<Rightarrow> True"
  obtains r where "x = Inr r"
  using assms by (cases x) auto

text \<open>
  Claim C10. In \<^verbatim>\<open>_preprocess_data\<close> every token \<open>w\<close> of a marked sentence yields exactly
  \<open>max 0 (len w + 2 - char_gram + 1)\<close> n-gram ids: this holds for each candidate of a
  successful call, and for the loop over the tokens of a sentence from any table. A token
  whose wrapped form is shorter than \<^verbatim>\<open>char_gram\<close> gives no id and leaves the char table as
  it was, also in extend mode, so the table after a sentence is the one that the sentence
  without these tokens gives.
\<close>

theorem preprocess_data_char_ngram_count:
  "(preprocess_data mark self cands ext = Inr (self', W, C) \<longrightarrow>
      list_all2 (\<lambda>c cs. \<exists>args. mark_args c = Inr args \<and>
         map length cs =
           map (\<lambda>w. nat (max 0 (int (length w) + 2 - char_gram (cfg self) + 1)))
             (mark (candidate_to_tokens c) args)) cands C)
   \<and> map length (snd (char_seq ext cg t sent)) =
       map (\<lambda>w. nat (max 0 (int (length w) + 2 - cg + 1))) sent
   \<and> (int (length w) + 2 < cg \<longrightarrow> map_table ext t (word_char_seq cg w) = (t, []))
   \<and> fst (char_seq ext cg t sent) =
       fst (char_seq ext cg t (filter (\<lambda>w. cg \<le> int (length w) + 2) sent))"
  using preprocess_data_counts[of mark self cands ext self' W C] char_seq_counts[of ext cg t sent]
    short_token[of w cg ext t] char_seq_filter[of ext cg t sent]
  by blast

theorem preprocess_data_char_ngram_count_witness:
  "(case preprocess_data mark_sentence
           ((new_model 2 :: nat wclstm)\<lparr>cfg := default_config\<lparr>char_gram := 5\<rparr>\<rparr>)
           [\<lparr>mentions = [(0, 0)], tokens = [''a'', ''bcd'']\<rparr>] True of
      Inl e \<Rightarrow> False
    | Inr (m, W, C) \<Rightarrow> map (map length) C = [[3, 0, 3, 1]])
   \<and> int (length ''a'') + 2 < 5
   \<and> map_table True SymbolTable_new (word_char_seq 5 ''a'') = (SymbolTable_new, [])"
proof -
  let ?self = "(new_model 2 :: nat wclstm)\<lparr>cfg := default_config\<lparr>char_gram := 5\<rparr>\<rparr>"
  let ?cands = "[\<lparr>mentions = [(0, 0)], tokens = [''a'', ''bcd'']\<rparr>]"
  have "case preprocess_data mark_sentence ?self ?cands True of Inl e \<Rightarrow> False | Inr r \<Rightarrow> True"
    by (simp add: preprocess_data_def new_model_def default_config_def mark_args_def
          candidate_to_tokens_def Let_def split: sum.splits prod.splits)
  then obtain r where "preprocess_data mark_sentence ?self ?cands True = Inr r"
    by (rule is_Inr_caseE)
  then obtain m W C where h: "preprocess_data mark_sentence ?self ?cands True = Inr (m, W, C)"
    by (cases r) auto
  have short: "int (length ''a'') + 2 < 5" by simp
  have sent: "mark_sentence (candidate_to_tokens \<lparr>mentions = [(0, 0)], tokens = [''a'', ''bcd'']\<rparr>)
                [(0, 0, 1)] = [''~~[[1'', ''a'', ''1]]~~'', ''bcd'']"
    by (simp add: candidate_to_tokens_def py_insert_def str_int_def str_nat.simps)
  have args: "mark_args \<lparr>mentions = [(0, 0)], tokens = [''a'', ''bcd'']\<rparr> = Inr [(0, 0, 1)]"
    by (simp add: mark_args_def)
  have cg: "char_gram (cfg ?self) = 5" by (simp add: new_model_def)
  from preprocess_data_char_ngram_count[where mark = mark_sentence and self = ?self
      and cands = ?cands and ext = True and self' = m and W = W and C = C]
  have "list_all2 (\<lambda>c cs. \<exists>args. mark_args c = Inr args \<and>
           map length cs =
             map (\<lambda>w. nat (max 0 (int (length w) + 2 - char_gram (cfg ?self) + 1)))
               (mark_sentence (candidate_to_tokens c) args)) ?cands C"
    using h by blast
  then have "map (map length) C = [[3, 0, 3, 1]]"
    unfolding cg
    by (auto simp: list_all2_Cons1 args candidate_to_tokens_def py_insert_def str_int_def
          str_nat.simps)
  moreover have "map_table True SymbolTable_new (word_char_seq 5 ''a'') = (SymbolTable_new, [])"
    using preprocess_data_char_ngram_count[where ext = True and cg = 5 and t = SymbolTable_new
        and w = "''a''"] short
    by blast
  ultimately show ?thesis using h short by simp
qed

text \<open>
  Claim C9, the claim as written. Preprocessing a candidate whose argument ends at index
  2, with a maximal sentence length of 2, raises no warning: \<^verbatim>\<open>_preprocess_data\<close> does not
  call the length validation, and the candidate is converted.
\<close>

theorem preprocess_data_raises_no_warning:
  "(case preprocess_data mark_sentence
           ((new_model 2 :: nat wclstm)\<lparr>cfg := default_config\<lparr>max_sentence_length := 2\<rparr>\<rparr>)
           [\<lparr>mentions = [(2, 2)], tokens = [''a'', ''b'', ''c'']\<rparr>] True of
      Inl e \<Rightarrow> None
    | Inr (m, W, C) \<Rightarrow> Some (warned m, length W, length C)) = Some ([], 1, 1)"
  by (simp add: preprocess_data_def new_model_def default_config_def mark_args_def
        candidate_to_tokens_def Let_def split: sum.splits prod.splits)

text \<open>
  Claim C9, as amended. \<^verbatim>\<open>_check_max_sentence_length\<close>, when it is called on the list of
  end offsets, returns normally and raises one warning for each index whose end offset is
  at least the length in force (\<^verbatim>\<open>max_len\<close> when given and not zero, else the configured
  maximal sentence length), in order, and none for the others. \<^verbatim>\<open>_preprocess_data\<close> raises no
  warning itself and converts every candidate it is given.
\<close>

theorem check_max_sentence_length_warnings:
  "check_max_sentence_length self ends max_len =
     self\<lparr>warned := warned self @
       map (\<lambda>i. warning_text i (ends ! i) (max_len_or self max_len))
         (filter (\<lambda>i. ends ! i \<ge> max_len_or self max_len) [0 ..< length ends])\<rparr>
   \<and> (preprocess_data mark self cands ext = Inr (self', W, C) \<longrightarrow>
        warned self' = warned self \<and> length W = length cands \<and> length C = length cands)"
  using check_loop_eq[of "max_len_or self max_len" 0 ends]
    preprocess_data_frame[of mark self cands ext self' W C]
  by (simp add: check_max_sentence_length_def)

theorem check_max_sentence_length_warnings_witness:
  "warned (check_max_sentence_length
             ((new_model 2 :: nat wclstm)\<lparr>cfg := default_config\<lparr>max_sentence_length := 2\<rparr>\<rparr>)
             [1, 2, 5] None) =
     [warning_text 1 2 2, warning_text 2 5 2]
   \<and> (case preprocess_data mark_sentence
             ((new_model 2 :: nat wclstm)\<lparr>cfg := default_config\<lparr>max_sentence_length := 2\<rparr>\<rparr>)
             [\<lparr>mentions = [(2, 2)], tokens = [''a'', ''b'', ''c'']\<rparr>] True of
        Inl e \<Rightarrow> False
      | Inr (m, W, C) \<Rightarrow> warned m = [] \<and> length W = 1 \<and> length C = 1)"
proof -
  let ?self = "(new_model 2 :: nat wclstm)\<lparr>cfg := default_config\<lparr>max_sentence_length := 2\<rparr>\<rparr>"
  let ?cands = "[\<lparr>mentions = [(2, 2)], tokens = [''a'', ''b'', ''c'']\<rparr>]"
  have "case preprocess_data mark_sentence ?self ?cands True of Inl e \<Rightarrow> False | Inr r \<Rightarrow> True"
    by (simp add: preprocess_data_def new_model_def default_config_def mark_args_def
          candidate_to_tokens_def Let_def split: sum.splits prod.splits)
  then obtain r where "preprocess_data mark_sentence ?self ?cands True = Inr r"
    by (rule is_Inr_caseE)
  then obtain m W C where h: "preprocess_data mark_sentence ?self ?cands True = Inr (m, W, C)"
    by (cases r) auto
  have mx: "max_len_or ?self None = 2"
    by (simp add: max_len_or_def new_model_def default_config_def)
  have w0: "warned ?self = []" by (simp add: new_model_def)
  have up: "[0 ..< 3] = [0, 1, 2]" by (simp add: upt_rec)
  note inst = check_max_sentence_length_warnings[of ?self "[1, 2, 5]" None mark_sentence ?cands True m W C]
  from inst have "warned (check_max_sentence_length ?self [1, 2, 5] None) =
      warned ?self @ map (\<lambda>i. warning_text i ([1, 2, 5] ! i) (max_len_or ?self None))
         (filter (\<lambda>i. [1, 2, 5] ! i \<ge> max_len_or ?self None) [0 ..< length [1, 2, 5 :: int]])"
    by simp
  then have "warned (check_max_sentence_length ?self [1, 2, 5] None) =
      [warning_text 1 2 2, warning_text 2 5 2]"
    unfolding mx w0 by (simp add: up numeral_2_eq_2)
  moreover from inst h have "warned m = [] \<and> length W = 1 \<and> length C = 1"
    using w0 by simp
  ultimately show ?thesis using h by simp
qed

section \<open>Properties of the vocabulary construction\<close>

text \<open>
  On its first call \<^verbatim>\<open>_preprocess_data\<close> seeds both tables before any candidate is read: the
  four argument markers get the ids 2 to 5 of the word table and the two char markers the
  ids 2 and 3 of the char table.
\<close>

lemma preprocess_data_seeds_markers:
  assumes "word_dict self = None" and "char_dict self = None"
  shows "preprocess_data mark self [] ext =
     Inr (self\<lparr>word_dict := Some \<lparr>s = 6, unknown = 1,
                    d = [''~~[[1'' \<mapsto> 2, ''1]]~~'' \<mapsto> 3, ''~~[[2'' \<mapsto> 4, ''2]]~~'' \<mapsto> 5]\<rparr>,
               char_dict := Some \<lparr>s = 4, unknown = 1, d = [''<'' \<mapsto> 2, ''>'' \<mapsto> 3]\<rparr>\<rparr>, [], [])"
  using assms
  by (simp add: preprocess_data_def SymbolTable_new_def char_marker_def word_padding_def get_def)

text \<open>
  Claim C1. \<^verbatim>\<open>create_dict(splits, word=True, char=True)\<close> with one training candidate whose
  only token is \<^verbatim>\<open>ab\<close>: afterwards the char table holds neither \<^verbatim>\<open><\<close> nor \<^verbatim>\<open>>\<close>, and the
  characters of the corpus have taken the ids 2 and 3. The padding line of the char
  branch looks the markers up in \<^verbatim>\<open>char_dict_all\<close> and inserts nothing.
\<close>

theorem create_dict_char_markers_absent:
  "map_sum id (\<lambda>m. map_option (\<lambda>t. (s t, d t ''<'', d t ''>'', d t ''a'', d t ''b'')) (char_dict m))
     (create_dict self
        \<lparr>train_split = [\<lparr>mentions = [(0, 0)], tokens = [''ab'']\<rparr>], test_split = []\<rparr> True True)
   = Inr (Some (4, None, None, Some 2, Some 3))"
  by (simp add: create_dict_def SymbolTable_new_def word_padding_def get_def
        candidate_to_tokens_def py_list_def char_marker_def)

text \<open>
  Claim C7. With \<^verbatim>\<open>word=False, char=True\<close> on an instance that already has its word
  attributes, \<^verbatim>\<open>create_dict\<close> leaves \<^verbatim>\<open>char_dict_all\<close> empty although the test split holds
  the characters \<^verbatim>\<open>a\<close> and \<^verbatim>\<open>b\<close>: the update of \<^verbatim>\<open>char_dict_all\<close> is guarded by the word
  flag. On an instance without these attributes the same call, and the call with
  \<^verbatim>\<open>word=True, char=False\<close>, raise \<open>AttributeError\<close>.
\<close>

theorem create_dict_char_dict_all_not_recorded:
  "(case create_dict (new_model 2 :: nat wclstm) \<lparr>train_split = [], test_split = []\<rparr> True True of
      Inl e \<Rightarrow> None
    | Inr m1 \<Rightarrow>
        (case create_dict m1
                \<lparr>train_split = [],
                 test_split = [[\<lparr>mentions = [(0, 0)], tokens = [''ab'']\<rparr>]]\<rparr> False True of
           Inl e \<Rightarrow> None
         | Inr m2 \<Rightarrow> Some (char_dict_all m2, word_dict_all m2))) = Some (Some {}, Some {})
   \<and> create_dict (new_model 2 :: nat wclstm)
        \<lparr>train_split = [], test_split = [[\<lparr>mentions = [(0, 0)], tokens = [''ab'']\<rparr>]]\<rparr>
        False True = Inl AttributeError
   \<and> create_dict (new_model 2 :: nat wclstm)
        \<lparr>train_split = [], test_split = [[\<lparr>mentions = [(0, 0)], tokens = [''ab'']\<rparr>]]\<rparr>
        True False = Inl AttributeError"
  by (simp add: create_dict_def new_model_def SymbolTable_new_def word_padding_def get_def
        candidate_to_tokens_def py_list_def char_marker_def)

section \<open>Properties of the validation of the marginals\<close>

text \<open>
  Claim C2. Two calls of \<^verbatim>\<open>train\<close> that the validation lets through. With cardinality 3
  the row \<^verbatim>\<open>[0.5, 0.25, 0.0]\<close> sums to 0.75: the test \<^verbatim>\<open>sum - 1 < 1e-10\<close> has no absolute value
  and only refuses rows that sum to more than 1. With cardinality 2 the entry 1.5 lies
  outside [0,1]: the test is \<^verbatim>\<open>Y_train >= 0\<close> only. In both runs the encoders are built
  and trained for the two epochs asked for. The entries are dyadic, so the floating-point
  comparisons of the source are exact on them.
\<close>

theorem train_accepts_malformed_marginals:
  "check_marginals (\<lambda>Y. Y) (new_model 3 :: nat wclstm) (Mat 3 [[1 / 2, 1 / 4, 0]]) =
     Inr (Mat 3 [[1 / 2, 1 / 4, 0]])
   \<and> check_marginals (\<lambda>Y. Y) (new_model 2 :: nat wclstm) (Vec [3 / 2]) = Inr (Vec [3 / 2])
   \<and> map_sum id (\<lambda>r. (word_model (model r), char_model (model r)))
       (train (counting_env (\<lambda>n. 0)) \<lparr>dirs = {}, files = Map.empty\<rparr> (new_model 3)
          [\<lparr>mentions = [(0, 0)], tokens = [''a'']\<rparr>] (Mat 3 [[1 / 2, 1 / 4, 0]]) None None 0
          True (3 / 4) ''checkpoints'' (no_kwargs\<lparr>kw_n_epochs := Some 2\<rparr>)) =
     Inr (Some 2, Some 2)
   \<and> map_sum id (\<lambda>r. (word_model (model r), char_model (model r)))
       (train (counting_env (\<lambda>n. 0)) \<lparr>dirs = {}, files = Map.empty\<rparr> (new_model 2)
          [\<lparr>mentions = [(0, 0)], tokens = [''a'']\<rparr>] (Vec [3 / 2]) None None 0
          True (3 / 4) ''checkpoints'' (no_kwargs\<lparr>kw_n_epochs := Some 2\<rparr>)) =
     Inr (Some 2, Some 2)"
  by code_simp

section \<open>Properties of saving and loading\<close>

lemma path_join_suffix: "\<exists>p. path_join a b = p @ b"
  by (auto simp: path_join_def intro: exI[of _ "[]"] exI[of _ a] exI[of _ "a @ ''/''"])

lemma suffix_neq: "length u = length v \<Longrightarrow> u \<noteq> v \<Longrightarrow> p @ u \<noteq> q @ v"
  by simp

lemma word_char_path_neq: "word_model_path md mn \<noteq> char_model_path md mn"
proof -
  obtain p where p: "path_join md (mn @ ''_word_model'') = p @ mn @ ''_word_model''"
    using path_join_suffix by blast
  obtain q where q: "path_join md (mn @ ''_char_model'') = q @ mn @ ''_char_model''"
    using path_join_suffix by blast
  have "(p @ mn) @ ''_word_model'' \<noteq> (q @ mn) @ ''_char_model''"
    by (rule suffix_neq) simp_all
  then show ?thesis by (simp add: word_model_path_def char_model_path_def p q)
qed

lemma pkl_path_neq_model:
  assumes "sfx = ''_word_model'' \<or> sfx = ''_char_model''"
    and "b = ''model_kwargs.pkl'' \<or> b = ''model_dicts.pkl''"
  shows "path_join md b \<noteq> path_join md (mn @ sfx)"
proof -
  obtain p where p: "path_join md b = p @ b" using path_join_suffix by blast
  obtain q where q: "path_join md (mn @ sfx) = q @ mn @ sfx" using path_join_suffix by blast
  from assms(2) obtain b' where b: "b = b' @ ''kl''" by auto
  from assms(1) obtain s' where s: "sfx = s' @ ''el''" by auto
  have "(p @ b') @ ''kl'' \<noteq> (q @ mn @ s') @ ''el''"
    by (rule suffix_neq) simp_all
  then show ?thesis unfolding p q unfolding b s by simp
qed

lemma save_only_param:
  assumes "save fs self model_name save_dir True = Inr fs'"
  shows "\<exists>wm cm. word_model self = Some wm \<and> char_model self = Some cm \<and>
           files fs' = (files fs)(word_model_path (model_dir self model_name save_dir) (name_or self model_name) \<mapsto> NetFile wm,
                                  char_model_path (model_dir self model_name save_dir) (name_or self model_name) \<mapsto> NetFile cm)"
  using assms
  by (auto simp: save_def Let_def write_file_def model_dir_def split: option.splits if_splits)

lemma load_only_param:
  assumes "load fs self model_name save_dir True = Inr self'"
  shows "\<exists>wm cm. files fs (word_model_path (model_dir self model_name save_dir) (name_or self model_name)) = Some (NetFile wm) \<and>
           files fs (char_model_path (model_dir self model_name save_dir) (name_or self model_name)) = Some (NetFile cm) \<and>
           self' = self\<lparr>word_model := Some wm, char_model := Some cm\<rparr>"
  using assms
  by (auto simp: load_def Let_def torch_load_def model_dir_def split: option.splits sum.splits file_content.splits)


text \<open>
  Claim C5. With \<^verbatim>\<open>only_param=True\<close>, a \<^verbatim>\<open>save\<close> that returns has written the two network
  files and no other file: \<^verbatim>\<open>model_kwargs.pkl\<close> and \<^verbatim>\<open>model_dicts.pkl\<close> of the model directory
  are what they were. A \<^verbatim>\<open>load\<close> that returns has replaced \<^verbatim>\<open>word_model\<close> and \<^verbatim>\<open>char_model\<close> by
  the contents of the two network files and left every other attribute, the symbol
  tables, the embedding matrices and the configuration among them, as it was.
\<close>

theorem only_param_touches_only_the_networks:
  "(save fs self model_name save_dir True = Inr fs' \<longrightarrow>
      (\<exists>wm cm. word_model self = Some wm \<and> char_model self = Some cm \<and>
         files fs' =
           (files fs)(word_model_path (model_dir self model_name save_dir)
                        (name_or self model_name) \<mapsto> NetFile wm,
                      char_model_path (model_dir self model_name save_dir)
                        (name_or self model_name) \<mapsto> NetFile cm)) \<and>
      files fs' (kwargs_path (model_dir self model_name save_dir)) =
        files fs (kwargs_path (model_dir self model_name save_dir)) \<and>
      files fs' (dicts_path (model_dir self model_name save_dir)) =
        files fs (dicts_path (model_dir self model_name save_dir)))
   \<and> (load fs self model_name save_dir True = Inr self' \<longrightarrow>
      (\<exists>wm cm.
         files fs (word_model_path (model_dir self model_name save_dir)
                     (name_or self model_name)) = Some (NetFile wm) \<and>
         files fs (char_model_path (model_dir self model_name save_dir)
                     (name_or self model_name)) = Some (NetFile cm) \<and>
         self' = self\<lparr>word_model := Some wm, char_model := Some cm\<rparr>) \<and>
      word_dict self' = word_dict self \<and> char_dict self' = char_dict self \<and>
      word_dict_all self' = word_dict_all self \<and> char_dict_all self' = char_dict_all self \<and>
      word_emb self' = word_emb self \<and> char_emb self' = char_emb self \<and>
      cfg self' = cfg self \<and> model_kwargs self' = model_kwargs self \<and>
      name self' = name self \<and> cardinality self' = cardinality self)"
proof (intro conjI impI)
  assume a: "save fs self model_name save_dir True = Inr fs'"
  from save_only_param[OF a] obtain wm cm where
    n: "word_model self = Some wm" "char_model self = Some cm" and
    f: "files fs' =
           (files fs)(word_model_path (model_dir self model_name save_dir)
                        (name_or self model_name) \<mapsto> NetFile wm,
                      char_model_path (model_dir self model_name save_dir)
                        (name_or self model_name) \<mapsto> NetFile cm)"
    by blast
  show "\<exists>wm cm. word_model self = Some wm \<and> char_model self = Some cm \<and>
         files fs' =
           (files fs)(word_model_path (model_dir self model_name save_dir)
                        (name_or self model_name) \<mapsto> NetFile wm,
                      char_model_path (model_dir self model_name save_dir)
                        (name_or self model_name) \<mapsto> NetFile cm)"
    using n f by blast
  show "files fs' (kwargs_path (model_dir self model_name save_dir)) =
        files fs (kwargs_path (model_dir self model_name save_dir))"
    unfolding f kwargs_path_def word_model_path_def char_model_path_def
    using pkl_path_neq_model[of _ "''model_kwargs.pkl''"] by simp
  show "files fs' (dicts_path (model_dir self model_name save_dir)) =
        files fs (dicts_path (model_dir self model_name save_dir))"
    unfolding f dicts_path_def word_model_path_def char_model_path_def
    using pkl_path_neq_model[of _ "''model_dicts.pkl''"] by simp
next
  assume a: "load fs self model_name save_dir True = Inr self'"
  from load_only_param[OF a] obtain wm cm where
    f: "files fs (word_model_path (model_dir self model_name save_dir)
                     (name_or self model_name)) = Some (NetFile wm)"
       "files fs (char_model_path (model_dir self model_name save_dir)
                     (name_or self model_name)) = Some (NetFile cm)"
    and s: "self' = self\<lparr>word_model := Some wm, char_model := Some cm\<rparr>"
    by blast
  show "\<exists>wm cm.
         files fs (word_model_path (model_dir self model_name save_dir)
                     (name_or self model_name)) = Some (NetFile wm) \<and>
         files fs (char_model_path (model_dir self model_name save_dir)
                     (name_or self model_name)) = Some (NetFile cm) \<and>
         self' = self\<lparr>word_model := Some wm, char_model := Some cm\<rparr>"
    using f s by blast
  show "word_dict self' = word_dict self" "char_dict self' = char_dict self"
    "word_dict_all self' = word_dict_all self" "char_dict_all self' = char_dict_all self"
    "word_emb self' = word_emb self" "char_emb self' = char_emb self"
    "cfg self' = cfg self" "model_kwargs self' = model_kwargs self"
    "name self' = name self" "cardinality self' = cardinality self"
    by (simp_all add: s)
qed

theorem only_param_touches_only_the_networks_witness:
  "(case save \<lparr>dirs = {}, files = Map.empty\<rparr>
           ((new_model 2 :: nat wclstm)\<lparr>word_model := Some 7, char_model := Some 8\<rparr>)
           None ''checkpoints'' True of
      Inl e \<Rightarrow> False
    | Inr fs' \<Rightarrow>
        files fs' ''checkpoints/WCLSTM/model_kwargs.pkl'' = None \<and>
        files fs' ''checkpoints/WCLSTM/model_dicts.pkl'' = None \<and>
        (case load fs' (new_model 2) None ''checkpoints'' True of
           Inl e \<Rightarrow> False
         | Inr m \<Rightarrow> cfg m = default_config \<and> word_dict m = None \<and> char_dict m = None))"
proof -
  let ?fs = "\<lparr>dirs = {}, files = Map.empty\<rparr> :: nat filesystem"
  let ?m = "(new_model 2 :: nat wclstm)\<lparr>word_model := Some 7, char_model := Some 8\<rparr>"
  have "case save ?fs ?m None ''checkpoints'' True of Inl e \<Rightarrow> False | Inr r \<Rightarrow> True"
    by code_simp
  then obtain fs' where sv: "save ?fs ?m None ''checkpoints'' True = Inr fs'"
    by (rule is_Inr_caseE)
  have "case (case save ?fs ?m None ''checkpoints'' True of Inl e \<Rightarrow> Inl e
              | Inr fs' \<Rightarrow> load fs' (new_model 2) None ''checkpoints'' True) of
          Inl e \<Rightarrow> False | Inr r \<Rightarrow> True"
    by code_simp
  then obtain m where ld: "load fs' (new_model 2 :: nat wclstm) None ''checkpoints'' True = Inr m"
    unfolding sv by simp (rule is_Inr_caseE)
  have kp: "kwargs_path (model_dir ?m None ''checkpoints'') = ''checkpoints/WCLSTM/model_kwargs.pkl''"
    by code_simp
  have dp: "dicts_path (model_dir ?m None ''checkpoints'') = ''checkpoints/WCLSTM/model_dicts.pkl''"
    by code_simp
  note a = only_param_touches_only_the_networks[where fs = ?fs and self = ?m and model_name = None
      and save_dir = "''checkpoints''" and fs' = fs', THEN conjunct1, rule_format, OF sv]
  have "files fs' ''checkpoints/WCLSTM/model_kwargs.pkl'' = None \<and>
        files fs' ''checkpoints/WCLSTM/model_dicts.pkl'' = None"
    using a[THEN conjunct2] unfolding kp dp by simp
  moreover note b = only_param_touches_only_the_networks[where fs = fs' and self = "new_model 2" and model_name = None
      and save_dir = "''checkpoints''" and self' = m, THEN conjunct2, rule_format, OF ld]
  have "cfg m = default_config \<and> word_dict m = None \<and> char_dict m = None"
    using b by (simp add: new_model_def)
  ultimately show ?thesis using sv ld by simp
qed

section \<open>Properties of the embedding reader\<close>

lemma read_0: "read skip 0 lns = data_lines skip lns"
  by (simp add: read_def data_lines_def)

lemma read_Cons:
  "read skip i (raw # lns) = (if skip \<and> i = 0 then lns else raw # lns)"
  "read skip (Suc i) lns = lns"
  by (simp_all add: read_def)

lemma load_dict_lines_bad:
  "list_ex (bad_line emb_dim) (read skip i lns) \<Longrightarrow>
   load_dict_lines msg skip emb_dim rep dict_all i lns = Inl (AssertionError msg)"
proof (induction lns arbitrary: i)
  case Nil
  then show ?case by (simp add: read_def split: if_splits)
next
  case (Cons raw lns)
  show ?case
  proof (cases "skip \<and> i = 0")
    case True
    with Cons.prems have "list_ex (bad_line emb_dim) (read skip (Suc i) lns)"
      by (simp add: read_Cons)
    from Cons.IH[OF this] True show ?thesis by simp
  next
    case False
    show ?thesis
    proof (cases "bad_line emb_dim raw")
      case True
      with False show ?thesis by (auto simp: bad_line_def fields_def Let_def)
    next
      case good: False
      with False Cons.prems have "list_ex (bad_line emb_dim) (read skip (Suc i) lns)"
        by (auto simp: read_Cons)
      from Cons.IH[OF this] False good show ?thesis
        by (auto simp: bad_line_def fields_def Let_def)
    qed
  qed
qed

lemma load_dict_lines_good:
  "\<not> list_ex (bad_line emb_dim) (read skip i lns) \<Longrightarrow>
   \<exists>l. load_dict_lines msg skip emb_dim rep dict_all i lns = Inr l"
proof (induction lns arbitrary: i)
  case Nil
  then show ?case by simp
next
  case (Cons raw lns)
  show ?case
  proof (cases "skip \<and> i = 0")
    case True
    with Cons.prems have "\<not> list_ex (bad_line emb_dim) (read skip (Suc i) lns)"
      by (simp add: read_Cons)
    from Cons.IH[OF this] True show ?thesis by simp
  next
    case False
    with Cons.prems have g: "\<not> bad_line emb_dim raw"
      and "\<not> list_ex (bad_line emb_dim) (read skip (Suc i) lns)"
      by (auto simp: read_Cons)
    from Cons.IH[OF this(2)] obtain l where
      "load_dict_lines msg skip emb_dim rep dict_all (Suc i) lns = Inr l" by blast
    with False g show ?thesis by (auto simp: bad_line_def fields_def Let_def)
  qed
qed

lemma load_dict_bad_word:
  assumes "read_lines fs (word_emb_path (cfg self)) = Inr wl"
    and "list_ex (bad_line (word_emb_dim (cfg self)))
           (data_lines (is_fastText (the (word_emb_path (cfg self)))) wl)"
  shows "load_dict fs self = Inl (AssertionError word_msg)"
  using assms load_dict_lines_bad[of "word_emb_dim (cfg self)"
      "is_fastText (the (word_emb_path (cfg self)))" 0 wl word_msg "replace (cfg self)" "word_dict_all self"]
  by (simp add: load_dict_def read_0 Let_def)

lemma load_dict_bad_char:
  assumes "read_lines fs (word_emb_path (cfg self)) = Inr wl"
    and "\<not> list_ex (bad_line (word_emb_dim (cfg self)))
           (data_lines (is_fastText (the (word_emb_path (cfg self)))) wl)"
    and "word_dict_all self \<noteq> Some {}"
    and "read_lines fs (char_emb_path (cfg self)) = Inr cl"
    and "list_ex (bad_line (char_emb_dim (cfg self))) cl"
  shows "load_dict fs self = Inl (AssertionError char_msg)"
proof -
  obtain l where "load_dict_lines word_msg (is_fastText (the (word_emb_path (cfg self))))
      (word_emb_dim (cfg self)) (replace (cfg self)) (word_dict_all self) 0 wl = Inr l"
    using load_dict_lines_good[of "word_emb_dim (cfg self)"
      "is_fastText (the (word_emb_path (cfg self)))" 0 wl word_msg "replace (cfg self)"
      "word_dict_all self"] assms(2) unfolding read_0 by blast
  moreover have "load_dict_lines char_msg False (char_emb_dim (cfg self)) (replace (cfg self))
      (char_dict_all self) 0 cl = Inl (AssertionError char_msg)"
    using load_dict_lines_bad[of "char_emb_dim (cfg self)" False 0 cl] assms(5)
    by (simp add: read_def)
  ultimately show ?thesis using assms(1,3,4) by (simp add: load_dict_def Let_def)
qed

text \<open>
  Claim C8. Let the word embedding file be readable. If one of its lines other than a
  skipped header splits (after \<^verbatim>\<open>strip\<close>, at single spaces) into a number of fields that
  differs from the word embedding dimension plus one, or if the word file has no such
  line, the loader gets as far as the char file, and the char file has such a line for the
  char dimension, then \<^verbatim>\<open>load_dict\<close> fails with the dimension assertion, and so does
  \<^verbatim>\<open>load_embeddings\<close>, which starts with \<^verbatim>\<open>load_dict\<close>: the load is not completed with the
  line left out.
\<close>

theorem wrong_field_count_fails_load:
  assumes "read_lines fs (word_emb_path (cfg self)) = Inr wl"
    and "list_ex (bad_line (word_emb_dim (cfg self)))
           (data_lines (is_fastText (the (word_emb_path (cfg self)))) wl)
         \<or> (word_dict_all self \<noteq> Some {} \<and> read_lines fs (char_emb_path (cfg self)) = Inr cl \<and>
            list_ex (bad_line (char_emb_dim (cfg self))) cl)"
  shows "\<exists>msg. (msg = word_msg \<or> msg = char_msg) \<and>
           load_dict fs self = Inl (AssertionError msg) \<and>
           load_embeddings sample_w sample_c py_float fs self = Inl (AssertionError msg)"
proof (cases "list_ex (bad_line (word_emb_dim (cfg self)))
           (data_lines (is_fastText (the (word_emb_path (cfg self)))) wl)")
  case True
  from load_dict_bad_word[OF assms(1) True] show ?thesis
    by (simp add: load_embeddings_def)
next
  case False
  with assms(2) have "word_dict_all self \<noteq> Some {}"
    "read_lines fs (char_emb_path (cfg self)) = Inr cl"
    "list_ex (bad_line (char_emb_dim (cfg self))) cl" by auto
  from load_dict_bad_char[OF assms(1) False this] show ?thesis
    by (simp add: load_embeddings_def)
qed

theorem wrong_field_count_fails_load_witness:
  "(\<exists>msg. load_dict
            \<lparr>dirs = {}, files = [''w.txt'' \<mapsto> TextFile [''a 1.0 2.0'' @ [CHR 0x0A], ''b 1.0'' @ [CHR 0x0A]]]\<rparr>
            ((new_model 2 :: nat wclstm)\<lparr>cfg := default_config\<lparr>word_emb_dim := 2,
               char_emb_dim := 2, word_emb_path := Some ''w.txt'', char_emb_path := Some ''c.txt''\<rparr>\<rparr>)
          = Inl (AssertionError msg))
   \<and> (\<exists>msg. load_embeddings (\<lambda>r c. []) (\<lambda>r c. []) (\<lambda>x. None)
            \<lparr>dirs = {}, files = [''w.txt'' \<mapsto> TextFile [''a 1.0 2.0'' @ [CHR 0x0A]],
                                 ''c.txt'' \<mapsto> TextFile [''x 1.0 2.0 3.0'' @ [CHR 0x0A]]]\<rparr>
            ((new_model 2 :: nat wclstm)\<lparr>cfg := default_config\<lparr>word_emb_dim := 2,
               char_emb_dim := 2, word_emb_path := Some ''w.txt'', char_emb_path := Some ''c.txt''\<rparr>\<rparr>)
          = Inl (AssertionError msg))"
proof -
  let ?m = "(new_model 2 :: nat wclstm)\<lparr>cfg := default_config\<lparr>word_emb_dim := 2,
               char_emb_dim := 2, word_emb_path := Some ''w.txt'', char_emb_path := Some ''c.txt''\<rparr>\<rparr>"
  let ?wl1 = "[''a 1.0 2.0'' @ [CHR 0x0A], ''b 1.0'' @ [CHR 0x0A]]"
  let ?fs1 = "\<lparr>dirs = {}, files = [''w.txt'' \<mapsto> TextFile ?wl1]\<rparr> :: nat filesystem"
  let ?wl2 = "[''a 1.0 2.0'' @ [CHR 0x0A]]"
  let ?cl2 = "[''x 1.0 2.0 3.0'' @ [CHR 0x0A]]"
  let ?fs2 = "\<lparr>dirs = {}, files = [''w.txt'' \<mapsto> TextFile ?wl2, ''c.txt'' \<mapsto> TextFile ?cl2]\<rparr>
                :: nat filesystem"
  have r1: "read_lines ?fs1 (word_emb_path (cfg ?m)) = Inr ?wl1"
    by (simp add: read_lines_def new_model_def)
  have b1: "list_ex (bad_line (word_emb_dim (cfg ?m)))
              (data_lines (is_fastText (the (word_emb_path (cfg ?m)))) ?wl1)"
    by code_simp
  have r2: "read_lines ?fs2 (word_emb_path (cfg ?m)) = Inr ?wl2"
    by (simp add: read_lines_def new_model_def)
  have b2: "word_dict_all ?m \<noteq> Some {} \<and> read_lines ?fs2 (char_emb_path (cfg ?m)) = Inr ?cl2 \<and>
            list_ex (bad_line (char_emb_dim (cfg ?m))) ?cl2"
    by code_simp
  from wrong_field_count_fails_load[OF r1 disjI1, OF b1]
  have "\<exists>msg. load_dict ?fs1 ?m = Inl (AssertionError msg)" by blast
  moreover from wrong_field_count_fails_load[OF r2 disjI2, OF b2,
      of "\<lambda>r c. []" "\<lambda>r c. []" "\<lambda>x. None"]
  have "\<exists>msg. load_embeddings (\<lambda>r c. []) (\<lambda>r c. []) (\<lambda>x. None) ?fs2 ?m = Inl (AssertionError msg)"
    by blast
  ultimately show ?thesis by blast
qed

section \<open>Properties of the embedding matrices\<close>

lemma wf_table_new: "wf_table SymbolTable_new"
  by (simp add: wf_table_def SymbolTable_new_def unknown_symbol_def)

lemma wf_table_get: "wf_table t \<Longrightarrow> wf_table (fst (get t w))"
proof (cases "d t w")
  case None
  assume wf: "wf_table t"
  have inj: "inj_on ((d t)(w \<mapsto> s t)) (insert w (dom (d t)))"
  proof (rule inj_onI)
    fix x y
    assume x: "x \<in> insert w (dom (d t))" and y: "y \<in> insert w (dom (d t))"
      and e: "((d t)(w \<mapsto> s t)) x = ((d t)(w \<mapsto> s t)) y"
    show "x = y"
    proof (cases "x = w")
      case True
      show ?thesis
      proof (rule ccontr)
        assume "x \<noteq> y"
        with True e have "d t y = Some (s t)" by (simp split: if_splits)
        with wf show False by (auto simp: wf_table_def)
      qed
    next
      case xf: False
      show ?thesis
      proof (cases "y = w")
        case True
        with xf e have "d t x = Some (s t)" by (simp split: if_splits)
        with wf show ?thesis by (auto simp: wf_table_def)
      next
        case False
        with xf e have "d t x = d t y" by simp
        moreover from xf x have "x \<in> dom (d t)" by simp
        moreover from False y have "y \<in> dom (d t)" by simp
        ultimately show ?thesis using wf by (auto simp: wf_table_def dest: inj_onD)
      qed
    qed
  qed
  from wf have "\<forall>v i. ((d t)(w \<mapsto> s t)) v = Some i \<longrightarrow> 2 \<le> i \<and> i < Suc (s t)"
    by (auto simp: wf_table_def less_Suc_eq)
  with None wf inj show ?thesis
    by (simp add: get_def wf_table_def)
next
  case (Some i)
  assume "wf_table t"
  with Some show ?thesis by (simp add: get_def)
qed

lemma wf_table_map_get: "wf_table t \<Longrightarrow> wf_table (fst (map_get t ws))"
proof (induction ws arbitrary: t)
  case Nil
  then show ?case by simp
next
  case (Cons w ws)
  obtain t1 i where g: "get t w = (t1, i)" by (cases "get t w")
  obtain t2 js where m: "map_get t1 ws = (t2, js)" by (cases "map_get t1 ws")
  have "wf_table t1" using wf_table_get[OF Cons.prems, of w] g by simp
  from Cons.IH[OF this] m g show ?case by simp
qed


lemma set_row_facts:
  assumes "set_row emb k vec = Inr emb'"
  shows "length emb' = length emb" and "k < length emb"
    and "\<And>j. j \<noteq> k \<Longrightarrow> emb' ! j = emb ! j"
    and "length (emb' ! k) = length (emb ! k)"
    and "length vec = length (emb ! k) \<Longrightarrow> emb' ! k = vec"
  using assms by (auto simp: set_row_def split: if_splits)

lemma parse_floats_length: "parse_floats pf xs = Inr vs \<Longrightarrow> length vs = length xs"
  by (induction xs arbitrary: vs) (auto split: option.splits sum.splits)

lemma length_last_fields:
  assumes "int (length line) = emb_dim + 1" and "0 < emb_dim"
  shows "length (py_slice line (- emb_dim) (int (length line))) = nat emb_dim"
  using assms by (simp add: py_slice_def Let_def)

lemma load_emb_lines_step:
  assumes "load_emb_lines pf msg skip emb_dim rep t i (raw # lns) emb = Inr emb'"
    and "\<not> (skip \<and> i = 0)"
  obtains (stored) vec row emb1 where
      "lookup t (line_token rep raw) \<noteq> unknown_symbol"
      "line_vector pf emb_dim raw = Inr vec"
      "d t (line_token rep raw) = Some row"
      "set_row emb row vec = Inr emb1"
      "load_emb_lines pf msg skip emb_dim rep t (Suc i) lns emb1 = Inr emb'"
      "\<not> bad_line emb_dim raw"
    | (passed)
      "lookup t (line_token rep raw) = unknown_symbol"
      "load_emb_lines pf msg skip emb_dim rep t (Suc i) lns emb = Inr emb'"
      "\<not> bad_line emb_dim raw"
  using assms
  by (auto simp: Let_def line_vector_def line_token_def fields_def bad_line_def lookup_strict_def
      split: if_splits sum.splits option.splits)

lemma load_emb_lines_length:
  "load_emb_lines pf msg skip emb_dim rep t i lns emb = Inr emb' \<Longrightarrow>
   length emb' = length emb \<and> (\<forall>j. length (emb' ! j) = length (emb ! j))"
proof (induction lns arbitrary: i emb)
  case Nil
  then show ?case by simp
next
  case (Cons raw lns)
  show ?case
  proof (cases "skip \<and> i = 0")
    case True
    with Cons.prems have "load_emb_lines pf msg skip emb_dim rep t (Suc i) lns emb = Inr emb'"
      by simp
    from Cons.IH[OF this] show ?thesis .
  next
    case False
    from Cons.prems False show ?thesis
    proof (cases rule: load_emb_lines_step)
      case (stored vec row emb1)
      from set_row_facts[OF stored(4)] have "length emb1 = length emb"
        and "\<And>j. length (emb1 ! j) = length (emb ! j)"
        by (metis, metis)
      with Cons.IH[OF stored(5)] show ?thesis by simp
    next
      case passed
      from Cons.IH[OF passed(2)] show ?thesis .
    qed
  qed
qed

lemma load_emb_lines_untouched:
  "load_emb_lines pf msg skip emb_dim rep t i lns emb = Inr emb' \<Longrightarrow>
   \<forall>raw \<in> set (read skip i lns). d t (line_token rep raw) \<noteq> Some k \<Longrightarrow>
   emb' ! k = emb ! k"
proof (induction lns arbitrary: i emb)
  case Nil
  then show ?case by simp
next
  case (Cons raw lns)
  show ?case
  proof (cases "skip \<and> i = 0")
    case True
    with Cons.prems have "load_emb_lines pf msg skip emb_dim rep t (Suc i) lns emb = Inr emb'"
      and "\<forall>raw \<in> set (read skip (Suc i) lns). d t (line_token rep raw) \<noteq> Some k"
      by (simp_all add: read_Cons)
    then show ?thesis by (rule Cons.IH)
  next
    case False
    with Cons.prems(2) have here: "d t (line_token rep raw) \<noteq> Some k"
      and rest: "\<forall>raw \<in> set (read skip (Suc i) lns). d t (line_token rep raw) \<noteq> Some k"
      by (auto simp: read_Cons)
    from Cons.prems(1) False show ?thesis
    proof (cases rule: load_emb_lines_step)
      case (stored vec row emb1)
      from stored(3) here have "k \<noteq> row" by auto
      with set_row_facts(3)[OF stored(4)] have "emb1 ! k = emb ! k" by simp
      with Cons.IH[OF stored(5) rest] show ?thesis by simp
    next
      case passed
      from Cons.IH[OF passed(2) rest] show ?thesis .
    qed
  qed
qed

lemma load_emb_lines_written:
  assumes wf: "wf_table t" and pos: "0 < emb_dim"
  shows "load_emb_lines pf msg skip emb_dim rep t i lns emb = Inr emb' \<Longrightarrow>
   \<forall>j < length emb. length (emb ! j) = nat emb_dim \<Longrightarrow>
   raw \<in> set (read skip i lns) \<Longrightarrow> d t (line_token rep raw) = Some k \<Longrightarrow>
   \<exists>raw' \<in> set (read skip i lns).
      line_token rep raw' = line_token rep raw \<and> line_vector pf emb_dim raw' = Inr (emb' ! k)"
proof (induction lns arbitrary: i emb raw)
  case Nil
  then show ?case by (simp add: read_def split: if_splits)
next
  case (Cons raw0 lns)
  show ?case
  proof (cases "skip \<and> i = 0")
    case True
    with Cons.prems have a: "load_emb_lines pf msg skip emb_dim rep t (Suc i) lns emb = Inr emb'"
      and b: "raw \<in> set (read skip (Suc i) lns)"
      by (simp_all add: read_Cons)
    from Cons.IH[OF a Cons.prems(2) b Cons.prems(4)] True show ?thesis
      by (simp add: read_Cons)
  next
    case False
    have tail: "read skip (Suc i) lns = lns" by (simp add: read_Cons)
    have here: "read skip i (raw0 # lns) = raw0 # lns" using False by (simp add: read_Cons)
    from Cons.prems(1) False show ?thesis
    proof (cases rule: load_emb_lines_step)
      case (stored vec row emb1)
      have widths: "\<forall>j < length emb1. length (emb1 ! j) = nat emb_dim"
        using set_row_facts(1,3,4)[OF stored(4)] Cons.prems(2) by metis
      show ?thesis
      proof (cases "\<exists>raw'' \<in> set lns. d t (line_token rep raw'') = Some k")
        case True
        then obtain raw'' where r: "raw'' \<in> set lns" "d t (line_token rep raw'') = Some k"
          by blast
        from r(1) tail have rin: "raw'' \<in> set (read skip (Suc i) lns)" by simp
        from Cons.IH[OF stored(5) widths rin r(2)] tail obtain raw' where
          x: "raw' \<in> set lns" "line_token rep raw' = line_token rep raw''"
             "line_vector pf emb_dim raw' = Inr (emb' ! k)" by auto
        from r(2) Cons.prems(4) wf have "line_token rep raw'' = line_token rep raw"
          by (auto simp: wf_table_def dest!: inj_onD[where x = "line_token rep raw''" and y = "line_token rep raw"])
        with x here show ?thesis by auto
      next
        case none: False
        with Cons.prems(3,4) here have eq: "raw = raw0" by auto
        with stored(3) Cons.prems(4) have rowk: "row = k" by simp
        from stored(6) have "int (length (fields raw0)) = emb_dim + 1" by (simp add: bad_line_def)
        from length_last_fields[OF this pos] stored(2) have "length vec = nat emb_dim"
          by (auto simp: line_vector_def dest: parse_floats_length)
        with Cons.prems(2) set_row_facts(2)[OF stored(4)] have "length vec = length (emb ! row)"
          by simp
        from set_row_facts(5)[OF stored(4) this] rowk have "emb1 ! k = vec" by simp
        moreover have "emb' ! k = emb1 ! k"
          using load_emb_lines_untouched[OF stored(5), of k] none tail by auto
        ultimately show ?thesis using stored(2) here eq by auto
      qed
    next
      case passed
      show ?thesis
      proof (cases "raw = raw0")
        case True
        with Cons.prems(4) wf passed(1) show ?thesis
          by (auto simp: lookup_def wf_table_def unknown_symbol_def dest!: spec)
      next
        case False
        with Cons.prems(3) here tail have "raw \<in> set (read skip (Suc i) lns)" by auto
        from Cons.IH[OF passed(2) Cons.prems(2) this Cons.prems(4)] here tail show ?thesis by auto
      qed
    qed
  qed
qed


lemma load_emb_lines_rows_loaded:
  assumes wf: "wf_table t" and pos: "0 < emb_dim"
    and ok: "load_emb_lines pf msg skip emb_dim rep t 0 lns rnd = Inr M"
    and widths: "\<forall>row \<in> set rnd. length row = nat emb_dim"
  shows "rows_loaded pf emb_dim rep t (data_lines skip lns) rnd M"
proof -
  have w: "\<forall>j < length rnd. length (rnd ! j) = nat emb_dim" using widths by simp
  have 1: "length M = length rnd" using load_emb_lines_length[OF ok] by simp
  have 2: "\<forall>k. (\<forall>raw \<in> set (data_lines skip lns). d t (line_token rep raw) \<noteq> Some k) \<longrightarrow>
              M ! k = rnd ! k"
    using load_emb_lines_untouched[OF ok] by (simp add: read_0)
  have 3: "\<forall>w k. d t w = Some k \<and> w \<notin> line_token rep ` set (data_lines skip lns) \<longrightarrow>
              M ! k = rnd ! k"
  proof (intro allI impI)
    fix w k
    assume a: "d t w = Some k \<and> w \<notin> line_token rep ` set (data_lines skip lns)"
    have "\<forall>raw \<in> set (data_lines skip lns). d t (line_token rep raw) \<noteq> Some k"
    proof
      fix raw
      assume r: "raw \<in> set (data_lines skip lns)"
      show "d t (line_token rep raw) \<noteq> Some k"
      proof
        assume "d t (line_token rep raw) = Some k"
        with a wf have "line_token rep raw = w"
          by (auto simp: wf_table_def dest!: inj_onD[where x = "line_token rep raw" and y = w])
        with a r show False by auto
      qed
    qed
    with 2 show "M ! k = rnd ! k" by blast
  qed
  have 4: "\<forall>raw \<in> set (data_lines skip lns). \<forall>k. d t (line_token rep raw) = Some k \<longrightarrow>
         (\<exists>raw' \<in> set (data_lines skip lns). line_token rep raw' = line_token rep raw \<and>
            line_vector pf emb_dim raw' = Inr (M ! k))"
    using load_emb_lines_written[OF wf pos ok w] by (simp add: read_0)
  from 1 2 3 4 show ?thesis unfolding rows_loaded_def by blast
qed

lemma load_dict_Inr:
  assumes "load_dict fs self = Inr self1"
  obtains wl cl lw lc where
    "read_lines fs (word_emb_path (cfg self)) = Inr wl"
    "read_lines fs (char_emb_path (cfg self)) = Inr cl"
    "self1 = self\<lparr>word_dict := Some (fst (map_get (fst (map_get
                        (case word_dict self of None \<Rightarrow> SymbolTable_new | Some t \<Rightarrow> t)
                        word_padding)) lw)),
                   char_dict := Some (fst (map_get (fst (map_get
                        (case char_dict self of None \<Rightarrow> SymbolTable_new | Some t \<Rightarrow> t)
                        char_marker)) lc))\<rparr>"
  using assms
  by (auto simp: load_dict_def Let_def split: sum.splits if_splits)

lemma load_embeddings_Inr:
  assumes "load_embeddings sample_w sample_c py_float fs self = Inr self'"
  obtains self1 wd cd wl cl W C where
    "load_dict fs self = Inr self1" "word_dict self1 = Some wd" "char_dict self1 = Some cd"
    "read_lines fs (word_emb_path (cfg self1)) = Inr wl"
    "read_lines fs (char_emb_path (cfg self1)) = Inr cl"
    "load_emb_lines py_float word_msg (is_fastText (the (word_emb_path (cfg self1))))
       (word_emb_dim (cfg self1)) (replace (cfg self1)) wd 0 wl
       (sample_w (s wd) (nat (word_emb_dim (cfg self1)))) = Inr W"
    "load_emb_lines py_float char_msg False (char_emb_dim (cfg self1)) (replace (cfg self1)) cd 0 cl
       (sample_c (s cd) (nat (char_emb_dim (cfg self1)))) = Inr C"
    "self' = self1\<lparr>word_emb := Some W, char_emb := Some C\<rparr>"
  using assms
  by (auto simp: load_embeddings_def uniform_def split: sum.splits option.splits if_splits)

text \<open>
  Claim C6. Let \<^verbatim>\<open>load_embeddings\<close> return, on an instance whose tables, if it has any, are
  well formed, with positive embedding dimensions and a random source that draws matrices
  of the shape asked for. Then \<^verbatim>\<open>load_dict\<close> has returned first, and the tables of the result
  are the ones it left; each matrix has as many rows as its table has ids; and each matrix
  is the random draw of that shape with rows overwritten as \<open>rows_loaded\<close> says: the row of
  a token is overwritten by the parsed vector of a line of the file exactly when the token
  of the line is in the table, and every other row, the row of each token of the table
  that the file does not carry among them, is the row drawn.
\<close>

theorem load_embeddings_overwrites_known_rows:
  assumes ok: "load_embeddings sample_w sample_c py_float fs self = Inr self'"
    and wfw: "case word_dict self of None \<Rightarrow> True | Some t \<Rightarrow> wf_table t"
    and wfc: "case char_dict self of None \<Rightarrow> True | Some t \<Rightarrow> wf_table t"
    and shw: "shape_ok sample_w" and shc: "shape_ok sample_c"
    and posw: "0 < word_emb_dim (cfg self)" and posc: "0 < char_emb_dim (cfg self)"
  shows "\<exists>self1 wd cd wl cl W C.
      load_dict fs self = Inr self1 \<and> word_dict self1 = Some wd \<and> char_dict self1 = Some cd \<and>
      self' = self1\<lparr>word_emb := Some W, char_emb := Some C\<rparr> \<and>
      read_lines fs (word_emb_path (cfg self)) = Inr wl \<and>
      read_lines fs (char_emb_path (cfg self)) = Inr cl \<and>
      length W = s wd \<and> length C = s cd \<and>
      rows_loaded py_float (word_emb_dim (cfg self)) (replace (cfg self)) wd
        (data_lines (is_fastText (the (word_emb_path (cfg self)))) wl)
        (sample_w (s wd) (nat (word_emb_dim (cfg self)))) W \<and>
      rows_loaded py_float (char_emb_dim (cfg self)) (replace (cfg self)) cd
        (data_lines False cl) (sample_c (s cd) (nat (char_emb_dim (cfg self)))) C"
proof -
  from ok obtain self1 wd cd wl cl W C where
    ld: "load_dict fs self = Inr self1" and wd: "word_dict self1 = Some wd"
    and cd: "char_dict self1 = Some cd"
    and rw: "read_lines fs (word_emb_path (cfg self1)) = Inr wl"
    and rc: "read_lines fs (char_emb_path (cfg self1)) = Inr cl"
    and lw: "load_emb_lines py_float word_msg (is_fastText (the (word_emb_path (cfg self1))))
       (word_emb_dim (cfg self1)) (replace (cfg self1)) wd 0 wl
       (sample_w (s wd) (nat (word_emb_dim (cfg self1)))) = Inr W"
    and lc: "load_emb_lines py_float char_msg False (char_emb_dim (cfg self1)) (replace (cfg self1)) cd 0 cl
       (sample_c (s cd) (nat (char_emb_dim (cfg self1)))) = Inr C"
    and s': "self' = self1\<lparr>word_emb := Some W, char_emb := Some C\<rparr>"
    by (rule load_embeddings_Inr)
  from ld obtain lw' lc' where
    s1: "self1 = self\<lparr>word_dict := Some (fst (map_get (fst (map_get
                        (case word_dict self of None \<Rightarrow> SymbolTable_new | Some t \<Rightarrow> t)
                        word_padding)) lw')),
                   char_dict := Some (fst (map_get (fst (map_get
                        (case char_dict self of None \<Rightarrow> SymbolTable_new | Some t \<Rightarrow> t)
                        char_marker)) lc'))\<rparr>"
    by (rule load_dict_Inr)
  have cfg: "cfg self1 = cfg self" by (simp add: s1)
  have "wf_table (case word_dict self of None \<Rightarrow> SymbolTable_new | Some t \<Rightarrow> t)"
    using wfw wf_table_new by (simp split: option.splits)
  then have wfwd: "wf_table wd" using wd unfolding s1 by (auto intro: wf_table_map_get)
  have "wf_table (case char_dict self of None \<Rightarrow> SymbolTable_new | Some t \<Rightarrow> t)"
    using wfc wf_table_new by (simp split: option.splits)
  then have wfcd: "wf_table cd" using cd unfolding s1 by (auto intro: wf_table_map_get)
  have ww: "\<forall>row \<in> set (sample_w (s wd) (nat (word_emb_dim (cfg self)))). length row = nat (word_emb_dim (cfg self))"
    using shw by (simp add: shape_ok_def)
  have wc: "\<forall>row \<in> set (sample_c (s cd) (nat (char_emb_dim (cfg self)))). length row = nat (char_emb_dim (cfg self))"
    using shc by (simp add: shape_ok_def)
  have RW: "rows_loaded py_float (word_emb_dim (cfg self)) (replace (cfg self)) wd
        (data_lines (is_fastText (the (word_emb_path (cfg self)))) wl)
        (sample_w (s wd) (nat (word_emb_dim (cfg self)))) W"
    using load_emb_lines_rows_loaded[OF wfwd posw lw[unfolded cfg] ww] .
  have RC: "rows_loaded py_float (char_emb_dim (cfg self)) (replace (cfg self)) cd
        (data_lines False cl) (sample_c (s cd) (nat (char_emb_dim (cfg self)))) C"
    using load_emb_lines_rows_loaded[OF wfcd posc lc[unfolded cfg] wc] .
  have LW: "length W = s wd" using RW shw by (simp add: rows_loaded_def shape_ok_def)
  have LC: "length C = s cd" using RC shc by (simp add: rows_loaded_def shape_ok_def)
  from ld wd cd s' rw rc RW RC LW LC show ?thesis unfolding cfg by blast
qed


theorem load_embeddings_overwrites_known_rows_witness:
  "(case load_embeddings (\<lambda>r c. replicate r (replicate c (1 / 20)))
           (\<lambda>r c. replicate r (replicate c (1 / 20)))
           (\<lambda>x. if x = ''1.0'' then Some 1 else if x = ''2.0'' then Some 2 else None)
           \<lparr>dirs = {},
            files = [''w.txt'' \<mapsto> TextFile [''a 1.0 2.0'' @ [CHR 0x0A], ''zz 2.0 1.0'' @ [CHR 0x0A]],
                     ''c.txt'' \<mapsto> TextFile [''x 2.0 2.0'' @ [CHR 0x0A]]]\<rparr>
           ((new_model 2 :: nat wclstm)
              \<lparr>cfg := default_config\<lparr>load_emb := True, word_emb_dim := 2, char_emb_dim := 2,
                       word_emb_path := Some ''w.txt'', char_emb_path := Some ''c.txt''\<rparr>,
               word_dict_all := Some {''a''}, char_dict_all := Some {''x''}\<rparr>) of
      Inl e \<Rightarrow> False
    | Inr m \<Rightarrow> map_option length (word_emb m) = Some 7 \<and> map_option length (char_emb m) = Some 5)"
proof -
  let ?S = "\<lambda>r c. replicate r (replicate c (1 / 20 :: real))"
  let ?P = "\<lambda>x. if x = ''1.0'' then Some (1 :: real) else if x = ''2.0'' then Some 2 else None"
  let ?fs = "\<lparr>dirs = {},
            files = [''w.txt'' \<mapsto> TextFile [''a 1.0 2.0'' @ [CHR 0x0A], ''zz 2.0 1.0'' @ [CHR 0x0A]],
                     ''c.txt'' \<mapsto> TextFile [''x 2.0 2.0'' @ [CHR 0x0A]]]\<rparr> :: nat filesystem"
  let ?m = "(new_model 2 :: nat wclstm)
              \<lparr>cfg := default_config\<lparr>load_emb := True, word_emb_dim := 2, char_emb_dim := 2,
                       word_emb_path := Some ''w.txt'', char_emb_path := Some ''c.txt''\<rparr>,
               word_dict_all := Some {''a''}, char_dict_all := Some {''x''}\<rparr>"
  have "case load_embeddings ?S ?S ?P ?fs ?m of Inl e \<Rightarrow> False | Inr r \<Rightarrow> True"
    by code_simp
  then obtain m' where ok: "load_embeddings ?S ?S ?P ?fs ?m = Inr m'"
    by (rule is_Inr_caseE)
  have sizes: "case load_dict ?fs ?m of Inl e \<Rightarrow> False
     | Inr m1 \<Rightarrow> map_option s (word_dict m1) = Some 7 \<and> map_option s (char_dict m1) = Some 5"
    by code_simp
  have wfw: "case word_dict ?m of None \<Rightarrow> True | Some t \<Rightarrow> wf_table t"
    by (simp add: new_model_def)
  have wfc: "case char_dict ?m of None \<Rightarrow> True | Some t \<Rightarrow> wf_table t"
    by (simp add: new_model_def)
  have sh: "shape_ok ?S" by (simp add: shape_ok_def)
  have pw: "0 < word_emb_dim (cfg ?m)" and pc: "0 < char_emb_dim (cfg ?m)"
    by (simp_all add: new_model_def)
  from load_embeddings_overwrites_known_rows[OF ok wfw wfc sh sh pw pc] obtain self1 wd cd W C where
    ld: "load_dict ?fs ?m = Inr self1" and wd: "word_dict self1 = Some wd"
    and cd: "char_dict self1 = Some cd"
    and m': "m' = self1\<lparr>word_emb := Some W, char_emb := Some C\<rparr>"
    and len: "length W = s wd" "length C = s cd"
    by blast
  from sizes ld wd cd have "s wd = 7" "s cd = 5" by simp_all
  with len m' have "map_option length (word_emb m') = Some 7 \<and>
      map_option length (char_emb m') = Some 5" by simp
  then show ?thesis unfolding ok by simp
qed

section \<open>Properties of the epoch loop\<close>

text \<open>
  Claim C3. Let a dev set be supplied and checkpointing be on, and let the loop stand
  before epoch \<open>idx\<close> with a best epoch \<open>e\<close> recorded. If \<open>idx\<close> is a reporting epoch (a
  multiple of \<^verbatim>\<open>print_freq\<close>, or the last one), the dev score after it does not improve on
  the best one, more than \<^verbatim>\<open>patience\<close> epochs lie between \<open>e\<close> and \<open>idx\<close>, and \<open>idx\<close> exceeds
  \<^verbatim>\<open>dev_ckpt_delay * n_epochs\<close>, then the loop is left at \<open>idx\<close>: the remaining epochs \<open>rest\<close> are
  not trained and nothing more is saved. The witness is the run of the claim: patience 2,
  no delay, a check at every epoch and a dev score of 0.5 throughout, which beats the
  initial 0.0 at the first check and stays flat; the best epoch is recorded at index 1 (at
  index 0 the delay test \<^verbatim>\<open>idx > 0\<close> fails) and the loop is left at index 4 = 1 + 2 + 1 of 10.
\<close>

theorem patience_halts_training:
  assumes nets: "word_model (model r) = Some wm" "char_model (model r) = Some cm"
    and step: "step idx wm cm = (wm', cm')"
    and report: "0 < print_freq"
      "(int idx + 1) mod print_freq = 0 \<or> int idx + 1 = n_epochs (cfg (model r))"
    and examples: "0 < n_examples"
    and best: "last_epoch_opt r = Some e"
    and flat: "score ((model r)\<lparr>word_model := Some wm', char_model := Some cm'\<rparr>) \<le> dev_score_opt r"
    and pat: "int idx - int e > patience (cfg (model r))"
    and delay: "real idx > dev_ckpt_delay * real_of_int (n_epochs (cfg (model r)))"
  shows "train_loop step (Some score) print_freq True dev_ckpt_delay save_dir n_examples
           (idx # rest) r =
         Inr (r\<lparr>model := (model r)\<lparr>word_model := Some wm', char_model := Some cm'\<rparr>,
                halted := Some idx\<rparr>)"
proof -
  have "epoch_body step (Some score) print_freq True dev_ckpt_delay save_dir n_examples idx r =
         Inr (r\<lparr>model := (model r)\<lparr>word_model := Some wm', char_model := Some cm'\<rparr>,
                halted := Some idx\<rparr>)"
    using assms by (simp add: epoch_body_def Let_def)
  then show ?thesis by simp
qed

theorem patience_halts_training_witness:
  "(case train_loop (\<lambda>idx wm cm. (Suc wm, Suc cm)) (Some (\<lambda>m. 1 / 2)) 1 True 0 ''checkpoints'' 1
           [0, 1, 2, 3]
           \<lparr>model = (new_model 2 :: nat wclstm)
              \<lparr>cfg := default_config\<lparr>n_epochs := 10, patience := 2\<rparr>,
               word_model := Some 0, char_model := Some 0\<rparr>,
            disk = \<lparr>dirs = {}, files = Map.empty\<rparr>, dev_score_opt = 0,
            last_epoch_opt = None, halted = None\<rparr> of
      Inl e \<Rightarrow> False
    | Inr r \<Rightarrow>
        halted r = None \<and> last_epoch_opt r = Some 1 \<and>
        int 4 - int 1 > patience (cfg (model r)) \<and>
        train_loop (\<lambda>idx wm cm. (Suc wm, Suc cm)) (Some (\<lambda>m. 1 / 2)) 1 True 0 ''checkpoints'' 1
          [4, 5, 6, 7, 8, 9] r =
        Inr (r\<lparr>model := (model r)\<lparr>word_model := Some 5, char_model := Some 5\<rparr>,
               halted := Some 4\<rparr>))"
proof -
  let ?step = "\<lambda>(idx :: nat) (wm :: nat) (cm :: nat). (Suc wm, Suc cm)"
  let ?score = "\<lambda>m :: nat wclstm. 1 / 2 :: real"
  let ?r0 = "\<lparr>model = (new_model 2 :: nat wclstm)
              \<lparr>cfg := default_config\<lparr>n_epochs := 10, patience := 2\<rparr>,
               word_model := Some 0, char_model := Some 0\<rparr>,
            disk = \<lparr>dirs = {}, files = Map.empty\<rparr>, dev_score_opt = 0,
            last_epoch_opt = None, halted = None\<rparr>"
  have ev: "case train_loop ?step (Some ?score) 1 True 0 ''checkpoints'' 1 [0, 1, 2, 3] ?r0 of
      Inl e \<Rightarrow> False
    | Inr r \<Rightarrow> halted r = None \<and> last_epoch_opt r = Some 1 \<and> dev_score_opt r = 1 / 2 \<and>
        word_model (model r) = Some 4 \<and> char_model (model r) = Some 4 \<and>
        n_epochs (cfg (model r)) = 10 \<and> patience (cfg (model r)) = 2"
    by code_simp
  then obtain r where r: "train_loop ?step (Some ?score) 1 True 0 ''checkpoints'' 1 [0, 1, 2, 3] ?r0 = Inr r"
    by (cases "train_loop ?step (Some ?score) 1 True 0 ''checkpoints'' 1 [0, 1, 2, 3] ?r0") auto
  with ev have f: "halted r = None" "last_epoch_opt r = Some 1" "dev_score_opt r = 1 / 2"
    "word_model (model r) = Some 4" "char_model (model r) = Some 4"
    "n_epochs (cfg (model r)) = 10" "patience (cfg (model r)) = 2"
    by simp_all
  have "train_loop ?step (Some ?score) 1 True 0 ''checkpoints'' 1 (4 # [5, 6, 7, 8, 9]) r =
        Inr (r\<lparr>model := (model r)\<lparr>word_model := Some 5, char_model := Some 5\<rparr>,
               halted := Some 4\<rparr>)"
    by (rule patience_halts_training[where e = 1 and wm = 4 and cm = 4]) (simp_all add: f)
  with f show ?thesis unfolding r by simp
qed


text \<open>
  The same run through \<^verbatim>\<open>train\<close> itself: ten epochs asked for, the loop left at index 4, the
  best epoch at index 1, and the encoders of that checkpoint (trained for two epochs) back
  in memory at the end.
\<close>

lemma train_early_stopping_run:
  "map_sum id (\<lambda>r. (halted r, last_epoch_opt r, word_model (model r), char_model (model r)))
     (train (counting_env (\<lambda>n. 1 / 2)) \<lparr>dirs = {}, files = Map.empty\<rparr> (new_model 2)
        [\<lparr>mentions = [(0, 0)], tokens = [''a'']\<rparr>] (Vec [1])
        (Some [\<lparr>mentions = [(0, 0)], tokens = [''a'']\<rparr>]) (Some (Vec [1])) 1 True 0 ''checkpoints''
        (no_kwargs\<lparr>kw_n_epochs := Some 10, kw_patience := Some 2\<rparr>)) =
   Inr (Some 4, Some 1, Some 2, Some 2)"
  by code_simp

section \<open>Properties of the checkpoint restore\<close>

lemma same_but_nets_refl: "same_but_nets m m"
  by (simp add: same_but_nets_def)

lemma same_but_nets_upd:
  "same_but_nets m m' \<Longrightarrow> same_but_nets m (m'\<lparr>word_model := a, char_model := b\<rparr>)"
  by (simp add: same_but_nets_def)

lemma same_but_nets_eq:
  assumes "same_but_nets m m'"
  shows "m'\<lparr>word_model := a, char_model := b\<rparr> = m\<lparr>word_model := a, char_model := b\<rparr>"
proof -
  from assms have "(m'\<lparr>word_model := None, char_model := None\<rparr>)\<lparr>word_model := a, char_model := b\<rparr>
      = (m\<lparr>word_model := None, char_model := None\<rparr>)\<lparr>word_model := a, char_model := b\<rparr>"
    by (simp only: same_but_nets_def)
  then show ?thesis by simp
qed

lemma same_but_nets_fields:
  assumes "same_but_nets m m'"
  shows "name m' = name m" and "cfg m' = cfg m"
proof -
  from assms have e: "m'\<lparr>word_model := None, char_model := None\<rparr> = m\<lparr>word_model := None, char_model := None\<rparr>"
    by (simp only: same_but_nets_def)
  from arg_cong[OF e, of name] show "name m' = name m" by simp
  from arg_cong[OF e, of cfg] show "cfg m' = cfg m" by simp
qed

lemma save_only_param_files:
  assumes "word_model self = Some wm" and "char_model self = Some cm"
  shows "\<exists>fs'. save fs self None save_dir True = Inr fs' \<and>
     files fs' (word_model_path (model_dir self None save_dir) (name self)) = Some (NetFile wm) \<and>
     files fs' (char_model_path (model_dir self None save_dir) (name self)) = Some (NetFile cm)"
  using assms word_char_path_neq[of "model_dir self None save_dir" "name self"]
  by (simp add: save_def Let_def write_file_def model_dir_def name_or_def)

lemma epoch_body_inv:
  assumes ok: "epoch_body step (Some score) print_freq dev_ckpt dev_ckpt_delay save_dir n_examples idx r = Inr r'"
    and inv: "ckpt_inv score print_freq save_dir m0 r"
  shows "ckpt_inv score print_freq save_dir m0 r'"
proof -
  from ok obtain wm cm where nets: "word_model (model r) = Some wm" "char_model (model r) = Some cm"
    by (auto simp: epoch_body_def split: option.splits)
  obtain wm' cm' where st: "step idx wm cm = (wm', cm')" by (cases "step idx wm cm")
  define self1 where "self1 = (model r)\<lparr>word_model := Some wm', char_model := Some cm'\<rparr>"
  define r1 where "r1 = r\<lparr>model := self1\<rparr>"
  from inv have sb: "same_but_nets m0 (model r)" by (simp add: ckpt_inv_def)
  then have sb1: "same_but_nets m0 self1" unfolding self1_def by (rule same_but_nets_upd)
  have self1_eq: "self1 = m0\<lparr>word_model := Some wm', char_model := Some cm'\<rparr>"
    unfolding self1_def using same_but_nets_eq[OF sb] .
  have inv1: "ckpt_inv score print_freq save_dir m0 r1"
    using inv sb1 by (simp add: ckpt_inv_def r1_def)
  have nm: "name self1 = name m0" "model_dir self1 None save_dir = model_dir m0 None save_dir"
    using same_but_nets_fields[OF sb1] by (simp_all add: model_dir_def name_or_def)
  define past where "past = (real idx > dev_ckpt_delay * real_of_int (n_epochs (cfg self1)))"
  define report where "report = (print_freq > 0 \<and>
       ((int idx + 1) mod print_freq = 0 \<or> int idx + 1 = n_epochs (cfg self1)))"
  have eb: "epoch_body step (Some score) print_freq dev_ckpt dev_ckpt_delay save_dir n_examples idx r =
     (if report then
        (if n_examples = 0 then Inl ZeroDivisionError
         else (case (if dev_ckpt \<and> past \<and> score self1 > dev_score_opt r1
                     then (case save (disk r1) self1 None save_dir True of
                             Inl e \<Rightarrow> Inl e
                           | Inr fs \<Rightarrow> Inr (r1\<lparr>dev_score_opt := score self1, disk := fs,
                                               last_epoch_opt := Some idx\<rparr>))
                     else Inr r1) of
                 Inl e \<Rightarrow> Inl e
               | Inr r2 \<Rightarrow>
                   (case last_epoch_opt r2 of
                      None \<Rightarrow> Inr r2
                    | Some best \<Rightarrow>
                        if int idx - int best > patience (cfg self1) \<and> dev_ckpt \<and> past
                        then Inr (r2\<lparr>halted := Some idx\<rparr>)
                        else Inr r2)))
      else Inr r1)"
    unfolding epoch_body_def Let_def nets self1_def r1_def past_def report_def
    by (simp add: st cong: if_cong)
  show ?thesis
  proof (cases report)
    case False
    with ok eb have "r' = r1" by simp
    with inv1 show ?thesis by simp
  next
    case True
    with ok eb have nz: "n_examples \<noteq> 0" by (auto split: if_splits)
    show ?thesis
    proof (cases "dev_ckpt \<and> past \<and> score self1 > dev_score_opt r1")
      case imp: True
      have w: "word_model self1 = Some wm'" "char_model self1 = Some cm'"
        by (simp_all add: self1_def)
      from save_only_param_files[OF w, of "disk r1" save_dir] obtain fs' where
        sv: "save (disk r1) self1 None save_dir True = Inr fs'"
        and f: "files fs' (word_model_path (model_dir m0 None save_dir) (name m0)) = Some (NetFile wm')"
           "files fs' (char_model_path (model_dir m0 None save_dir) (name m0)) = Some (NetFile cm')"
        unfolding nm by blast
      define r2 where "r2 = r1\<lparr>dev_score_opt := score self1, disk := fs', last_epoch_opt := Some idx\<rparr>"
      from inv1 imp have pos: "0 < score self1" by (simp add: ckpt_inv_def)
      from report_def True have pf: "0 < print_freq" by simp
      have m2: "model r2 = self1" by (simp add: r2_def r1_def)
      have inv2: "ckpt_inv score print_freq save_dir m0 r2"
        unfolding ckpt_inv_def m2 using sb1 pos pf f self1_eq
        by (auto simp: r2_def)
      from ok eb True nz imp sv have "r' = r2 \<or> r' = r2\<lparr>halted := Some idx\<rparr>"
        by (auto simp: r2_def split: if_splits)
      with inv2 show ?thesis by (auto simp: ckpt_inv_def)
    next
      case False
      with ok eb True nz have "r' = r1 \<or> r' = r1\<lparr>halted := Some idx\<rparr>"
        by (auto split: if_splits option.splits)
      with inv1 show ?thesis by (auto simp: ckpt_inv_def)
    qed
  qed
qed

lemma train_loop_inv:
  "train_loop step (Some score) print_freq dev_ckpt dev_ckpt_delay save_dir n_examples idxs r = Inr r' \<Longrightarrow>
   ckpt_inv score print_freq save_dir m0 r \<Longrightarrow> ckpt_inv score print_freq save_dir m0 r'"
proof (induction idxs arbitrary: r)
  case Nil
  then show ?case by simp
next
  case (Cons idx rest)
  from Cons.prems(1) obtain r1 where
    b: "epoch_body step (Some score) print_freq dev_ckpt dev_ckpt_delay save_dir n_examples idx r = Inr r1"
    by (auto split: sum.splits)
  from epoch_body_inv[OF b Cons.prems(2)] have i1: "ckpt_inv score print_freq save_dir m0 r1" .
  show ?case
  proof (cases "halted r1 \<noteq> None")
    case True
    with Cons.prems(1) b have "r' = r1" by simp
    with i1 show ?thesis by simp
  next
    case False
    with Cons.prems(1) b have
      "train_loop step (Some score) print_freq dev_ckpt dev_ckpt_delay save_dir n_examples rest r1 = Inr r'"
      by simp
    from Cons.IH[OF this i1] show ?thesis .
  qed
qed


text \<open>
  Claim C4. Let \<^verbatim>\<open>train\<close> return from a call with a dev set and with checkpointing on, and
  let an improvement have been recorded (\<^verbatim>\<open>last_epoch_opt\<close> is set). Then the two encoders in
  memory are the ones held by the two network files of the checkpoint, and their dev
  score is the best score recorded, which is positive: the model is the best checkpoint,
  whatever the later epochs made of the encoders. In the witness the best score 0.9 is
  reached at epoch index 1 and lost afterwards; training goes on to index 4, and the model
  returned holds the encoders of index 1 (trained for two epochs), not those of index 4.
\<close>

theorem train_restores_best_checkpoint:
  assumes ok: "train env fs self X_train Y_train (Some X_dev) Y_dev print_freq True dev_ckpt_delay
                 save_dir kw = Inr r"
    and best: "last_epoch_opt r = Some e"
  shows "\<exists>wm cm. word_model (model r) = Some wm \<and> char_model (model r) = Some cm \<and>
           files (disk r) (word_model_path (model_dir (model r) None save_dir) (name (model r))) =
             Some (NetFile wm) \<and>
           files (disk r) (char_model_path (model_dir (model r) None save_dir) (name (model r))) =
             Some (NetFile cm) \<and>
           score_impl env (model r) X_dev Y_dev = dev_score_opt r \<and> 0 < dev_score_opt r"
proof -
  define score where "score = (\<lambda>m. score_impl env m X_dev Y_dev)"
  from ok obtain m0 Xw Xc Y rl where
    su: "train_setup env fs self X_train Y_train kw = Inr (m0, Xw, Xc, Y)"
    and loop: "train_loop (train_epoch_impl env Xw Xc Y) (Some score) print_freq True dev_ckpt_delay
                 save_dir (length Xw) [0 ..< nat (n_epochs (cfg m0))]
                 \<lparr>model = m0, disk = fs, dev_score_opt = 0, last_epoch_opt = None,
                  halted = None\<rparr> = Inr rl"
    and fin: "train_conclude True True print_freq save_dir rl = Inr r"
    by (auto simp: train_def score_def split: sum.splits prod.splits)
  have "ckpt_inv score print_freq save_dir m0
          \<lparr>model = m0, disk = fs, dev_score_opt = 0, last_epoch_opt = None, halted = None\<rparr>"
    by (simp add: ckpt_inv_def same_but_nets_refl)
  from train_loop_inv[OF loop this] have inv: "ckpt_inv score print_freq save_dir m0 rl" .
  from fin have last: "last_epoch_opt r = last_epoch_opt rl" and disk: "disk r = disk rl"
    and dso: "dev_score_opt r = dev_score_opt rl"
    by (auto simp: train_conclude_def split: if_splits sum.splits)
  from inv best last obtain wm cm where
    pf: "0 < print_freq" and pos: "0 < dev_score_opt rl"
    and fw: "files (disk rl) (word_model_path (model_dir m0 None save_dir) (name m0)) =
              Some (NetFile wm)"
    and fc: "files (disk rl) (char_model_path (model_dir m0 None save_dir) (name m0)) =
              Some (NetFile cm)"
    and sc: "score (m0\<lparr>word_model := Some wm, char_model := Some cm\<rparr>) = dev_score_opt rl"
    and sb: "same_but_nets m0 (model rl)"
    by (auto simp: ckpt_inv_def)
  from fin pf pos obtain self' where
    ld: "load (disk rl) (model rl) None save_dir True = Inr self'" and r: "r = rl\<lparr>model := self'\<rparr>"
    by (auto simp: train_conclude_def split: sum.splits)
  have nm: "name (model rl) = name m0"
    "model_dir (model rl) None save_dir = model_dir m0 None save_dir"
    "name_or (model rl) None = name m0"
    using same_but_nets_fields[OF sb] by (simp_all add: model_dir_def name_or_def)
  from load_only_param[OF ld] fw fc have
    s': "self' = (model rl)\<lparr>word_model := Some wm, char_model := Some cm\<rparr>"
    unfolding nm by auto
  then have s'': "self' = m0\<lparr>word_model := Some wm, char_model := Some cm\<rparr>"
    using same_but_nets_eq[OF sb] by simp
  have m: "model r = self'" by (simp add: r)
  have "word_model (model r) = Some wm" "char_model (model r) = Some cm"
    "name (model r) = name m0" "model_dir (model r) None save_dir = model_dir m0 None save_dir"
    unfolding m s'' by (simp_all add: model_dir_def name_or_def)
  moreover have "score_impl env (model r) X_dev Y_dev = dev_score_opt r"
    using sc unfolding m s'' dso score_def .
  ultimately show ?thesis using fw fc pos unfolding disk dso by simp
qed

theorem train_restores_best_checkpoint_witness:
  "(case train (counting_env (\<lambda>n. if n = 2 then 9 / 10 else 1 / 2))
           \<lparr>dirs = {}, files = Map.empty\<rparr> (new_model 2)
           [\<lparr>mentions = [(0, 0)], tokens = [''a'']\<rparr>] (Vec [1])
           (Some [\<lparr>mentions = [(0, 0)], tokens = [''a'']\<rparr>]) (Some (Vec [1])) 1 True 0
           ''checkpoints'' (no_kwargs\<lparr>kw_n_epochs := Some 10, kw_patience := Some 2\<rparr>) of
      Inl e \<Rightarrow> False
    | Inr r \<Rightarrow>
        last_epoch_opt r = Some 1 \<and> halted r = Some 4 \<and>
        word_model (model r) = Some 2 \<and> char_model (model r) = Some 2 \<and>
        files (disk r) ''checkpoints/WCLSTM/WCLSTM_word_model'' = Some (NetFile 2) \<and>
        files (disk r) ''checkpoints/WCLSTM/WCLSTM_char_model'' = Some (NetFile 2) \<and>
        dev_score_opt r = 9 / 10)"
proof -
  let ?env = "counting_env (\<lambda>n. if n = 2 then 9 / 10 else 1 / 2)"
  let ?X = "[\<lparr>mentions = [(0, 0)], tokens = [''a'']\<rparr>]"
  let ?kw = "no_kwargs\<lparr>kw_n_epochs := Some 10, kw_patience := Some 2\<rparr>"
  let ?run = "train ?env \<lparr>dirs = {}, files = Map.empty\<rparr> (new_model 2) ?X (Vec [1]) (Some ?X)
                (Some (Vec [1])) 1 True 0 ''checkpoints'' ?kw"
  have ev: "case ?run of Inl e \<Rightarrow> False
    | Inr r \<Rightarrow> last_epoch_opt r = Some 1 \<and> halted r = Some 4 \<and> name (model r) = ''WCLSTM''"
    by code_simp
  then obtain r where r: "?run = Inr r" by (cases ?run) auto
  with ev have f: "last_epoch_opt r = Some 1" "halted r = Some 4" "name (model r) = ''WCLSTM''"
    by simp_all
  have pw: "word_model_path (model_dir (model r) None ''checkpoints'') (name (model r)) =
      ''checkpoints/WCLSTM/WCLSTM_word_model''"
    by (simp add: word_model_path_def model_dir_def name_or_def path_join_def f)
  have pc: "char_model_path (model_dir (model r) None ''checkpoints'') (name (model r)) =
      ''checkpoints/WCLSTM/WCLSTM_char_model''"
    by (simp add: char_model_path_def model_dir_def name_or_def path_join_def f)
  from train_restores_best_checkpoint[OF r f(1)] obtain wm cm where
    n: "word_model (model r) = Some wm" "char_model (model r) = Some cm"
    and fl: "files (disk r) ''checkpoints/WCLSTM/WCLSTM_word_model'' = Some (NetFile wm)"
      "files (disk r) ''checkpoints/WCLSTM/WCLSTM_char_model'' = Some (NetFile cm)"
    and sc: "score_impl ?env (model r) ?X (Some (Vec [1])) = dev_score_opt r"
    unfolding pw pc by blast
  have ev2: "case ?run of Inl e \<Rightarrow> False
    | Inr r \<Rightarrow> word_model (model r) = Some 2 \<and> char_model (model r) = Some 2"
    by code_simp
  with r have n2: "word_model (model r) = Some 2" "char_model (model r) = Some 2" by simp_all
  with n have "wm = 2" "cm = 2" by simp_all
  moreover from sc n2 have "dev_score_opt r = 9 / 10" by (simp add: counting_env_def)
  ultimately show ?thesis using f fl n2 unfolding r by simp
qed

end
